theory Spec2Isabelle
  imports Complex_Main
begin

section \<open>Python values and exceptions\<close>

text \<open>
  The objects that \<^verbatim>\<open>json.loads\<close> / \<^verbatim>\<open>Response.json()\<close> produce, which are also the
  objects a caller passes in (device and device-type dictionaries, query parameters).
  A \<^verbatim>\<open>dict\<close> is an association list read with \<open>map_of\<close>. JSON numbers with a
  fraction (Python floats) are not represented.
\<close>

datatype pyval =
    PyNone
  | PyBool bool
  | PyInt int
  | PyStr string
  | PyList "pyval list"
  | PyDict "(string \<times> pyval) list"

text \<open>
  The exceptions that the client raises or lets through. \<open>Exception msg\<close> is the plain
  \<^verbatim>\<open>raise Exception(msg)\<close> of the constructor; \<open>JSONDecodeError doc\<close> is what the JSON
  parser raises, carrying the document it was given (its \<^verbatim>\<open>doc\<close> attribute);
  \<open>RateLimitException msg period_remaining\<close> is the exception of the \<^verbatim>\<open>ratelimit\<close>
  package; \<open>RequestException\<close> is what \<^verbatim>\<open>requests\<close> raises when it is handed something
  that is not a URL it accepts (\<^verbatim>\<open>MissingSchema\<close>, \<^verbatim>\<open>InvalidSchema\<close>, \<^verbatim>\<open>InvalidURL\<close>);
  \<open>RecursionError\<close> is what the interpreter raises when a call would go deeper than its
  recursion limit.
\<close>

datatype py_error =
    Exception string
  | KeyError string
  | TypeError
  | JSONDecodeError string
  | RateLimitException string real
  | RequestException
  | RecursionError

text \<open>\<^verbatim>\<open>obj[key]\<close> with a string key: only a dict can be read that way.\<close>

fun py_getitem :: "pyval \<Rightarrow> string \<Rightarrow> py_error + pyval" where
  "py_getitem (PyDict kvs) k = (case map_of kvs k of None \<Rightarrow> Inl (KeyError k) | Some v \<Rightarrow> Inr v)"
| "py_getitem _ k = Inl TypeError"

text \<open>What iterating over a value yields (\<^verbatim>\<open>list.extend\<close>): the elements of a list, the
  keys of a dict, the characters of a string; anything else is not iterable.\<close>

fun py_iter :: "pyval \<Rightarrow> py_error + pyval list" where
  "py_iter (PyList xs) = Inr xs"
| "py_iter (PyDict kvs) = Inr (map (\<lambda>kv. PyStr (fst kv)) kvs)"
| "py_iter (PyStr s) = Inr (map (\<lambda>ch. PyStr [ch]) s)"
| "py_iter _ = Inl TypeError"

fun py_number :: "pyval \<Rightarrow> int option" where
  "py_number (PyInt i) = Some i"
| "py_number (PyBool b) = Some (if b then 1 else 0)"
| "py_number _ = None"

text \<open>\<^verbatim>\<open>out += more\<close>: a list is extended by any iterable, strings are concatenated,
  numbers are added; every other combination is a \<^verbatim>\<open>TypeError\<close>.\<close>

fun py_iadd :: "pyval \<Rightarrow> pyval \<Rightarrow> py_error + pyval" where
  "py_iadd (PyList xs) more = (case py_iter more of Inl e \<Rightarrow> Inl e | Inr ys \<Rightarrow> Inr (PyList (xs @ ys)))"
| "py_iadd (PyStr s) more = (case more of PyStr t \<Rightarrow> Inr (PyStr (s @ t)) | _ \<Rightarrow> Inl TypeError)"
| "py_iadd (PyDict kvs) more = Inl TypeError"
| "py_iadd PyNone more = Inl TypeError"
| "py_iadd a more =
     (case (py_number a, py_number more) of
        (Some i, Some j) \<Rightarrow> Inr (PyInt (i + j))
      | _ \<Rightarrow> Inl TypeError)"

text \<open>\<^verbatim>\<open>"..." + x\<close>: string concatenation needs a string on the right.\<close>

fun py_concat :: "string \<Rightarrow> pyval \<Rightarrow> py_error + string" where
  "py_concat s (PyStr t) = Inr (s @ t)"
| "py_concat s _ = Inl TypeError"

section \<open>The HTTP transport, the clock and the process state\<close>

datatype http_verb = GET | PUT | POST

datatype payload = NoPayload | JsonPayload pyval | FormPayload pyval

record request =
  verb :: http_verb
  url :: string
  auth :: "string \<times> string"
  params :: pyval
  payload :: payload

text \<open>A response: \<^verbatim>\<open>r.status_code\<close>, \<^verbatim>\<open>r.text\<close>, and \<^verbatim>\<open>r.elapsed\<close> in seconds (the time
  the exchange took).\<close>

record response =
  status_code :: int
  body_text :: string
  elapsed :: real

record exchange =
  sent_at :: real
  req :: request

text \<open>
  The state of one \<^verbatim>\<open>@limits(...)\<close> decorator object of the \<^verbatim>\<open>ratelimit\<close> package
  (\<^verbatim>\<open>RateLimitDecorator\<close>: \<^verbatim>\<open>self.last_reset\<close>, \<^verbatim>\<open>self.num_calls\<close>).
\<close>

record rate_limit =
  last_reset :: real
  num_calls :: nat

datatype out_event = Print string | PPrint pyval | PrintExc string py_error

text \<open>
  The process state: the monotonic clock in seconds, the requests issued so far with their
  times, what was printed, and the two decorator objects. Each \<^verbatim>\<open>@limits(calls=1, period=5)\<close>
  line of the class body creates a decorator object of its own, when the class is defined:
  one for \<^verbatim>\<open>device_messages_page\<close>, one for \<^verbatim>\<open>device_messages\<close>.
\<close>

record world =
  clock :: real
  log :: "exchange list"
  stdout :: "out_event list"
  limits_page :: rate_limit
  limits_messages :: rate_limit

text \<open>
  What the program does not contain is a parameter: the backend (a response for every
  request, which may depend on the requests before it) and the JSON parser
  (\<open>None\<close>: the text is not JSON). An exchange that never completes is outside the model.
\<close>

record env =
  backend :: "exchange list \<Rightarrow> request \<Rightarrow> response"
  loads :: "string \<Rightarrow> pyval option"

definition http :: "env \<Rightarrow> request \<Rightarrow> world \<Rightarrow> response \<times> world" where
  "http E rq w =
     (let r = backend E (log w) rq
      in (r, w\<lparr>log := log w @ [\<lparr>sent_at = clock w, req = rq\<rparr>], clock := clock w + elapsed r\<rparr>))"

definition print :: "out_event \<Rightarrow> world \<Rightarrow> world" where
  "print x w = w\<lparr>stdout := stdout w @ [x]\<rparr>"

definition time_sleep :: "real \<Rightarrow> world \<Rightarrow> world" where
  "time_sleep secs w = w\<lparr>clock := clock w + secs\<rparr>"

section \<open>The client\<close>

record sigfox =
  login :: string
  password :: string
  api_url :: string
  debug :: bool

type_synonym 'a outcome = "(py_error + 'a) \<times> world"

text \<open>\<^verbatim>\<open>Sigfox.__init__\<close>. Credentials are strings; \<^verbatim>\<open>not login\<close> holds of the empty one.\<close>

definition Sigfox_init :: "string \<Rightarrow> string \<Rightarrow> bool \<Rightarrow> world \<Rightarrow> sigfox outcome" where
  "Sigfox_init lg pw dbg w =
     (if lg = [] \<or> pw = []
      then (Inl (Exception ''Please define login and password when initiating pySigfox class!''), w)
      else (Inr \<lparr>login = lg, password = pw, api_url = ''https://api.sigfox.com/v2/'', debug = dbg\<rparr>, w))"

text \<open>
  \<^verbatim>\<open>device_rename\<close>. Identifiers are strings, on which \<^verbatim>\<open>str()\<close> is the identity. The
  response is bound to \<^verbatim>\<open>r\<close> and never read; the function falls off its end, which
  returns \<^verbatim>\<open>None\<close>.
\<close>

definition device_rename :: "env \<Rightarrow> sigfox \<Rightarrow> string \<Rightarrow> pyval \<Rightarrow> world \<Rightarrow> pyval outcome" where
  "device_rename E c device_id new_name w =
     (let u = api_url c @ ''devices/'' @ device_id;
          w1 = (if debug c then print (Print (''Connecting to '' @ u)) w else w);
          (r, w2) = http E \<lparr>verb = PUT, url = u, auth = (login c, password c), params = PyNone,
                            payload = JsonPayload (PyDict [(''name'', new_name)])\<rparr> w1
      in (Inr PyNone, w2))"

text \<open>\<^verbatim>\<open>device_info\<close>: \<^verbatim>\<open>return r.json()\<close>, and on any exception \<^verbatim>\<open>pprint(r.text); raise\<close>.\<close>

definition device_info :: "env \<Rightarrow> sigfox \<Rightarrow> string \<Rightarrow> world \<Rightarrow> pyval outcome" where
  "device_info E c device_id w =
     (let u = api_url c @ ''devices/'' @ device_id;
          w1 = (if debug c then print (Print (''Connecting to '' @ u)) w else w);
          (r, w2) = http E \<lparr>verb = GET, url = u, auth = (login c, password c), params = PyNone,
                            payload = NoPayload\<rparr> w1
      in case loads E (body_text r) of
           Some j \<Rightarrow> (Inr j, w2)
         | None \<Rightarrow> (Inl (JSONDecodeError (body_text r)), print (PPrint (PyStr (body_text r))) w2))"

text \<open>\<^verbatim>\<open>groups_list\<close>: \<^verbatim>\<open>json.loads(r.text)['data']\<close> is iterated into a fresh list; nothing is
  caught.\<close>

definition groups_list :: "env \<Rightarrow> sigfox \<Rightarrow> world \<Rightarrow> pyval outcome" where
  "groups_list E c w =
     (let u = api_url c @ ''groups'';
          w1 = (if debug c then print (Print (''Connecting to '' @ u)) w else w);
          (r, w2) = http E \<lparr>verb = GET, url = u, auth = (login c, password c), params = PyNone,
                            payload = NoPayload\<rparr> w1;
          w3 = (if debug c then print (PPrint (PyStr (body_text r))) w2 else w2)
      in case loads E (body_text r) of
           None \<Rightarrow> (Inl (JSONDecodeError (body_text r)), w3)
         | Some j \<Rightarrow>
             (case py_getitem j ''data'' of
                Inl e \<Rightarrow> (Inl e, w3)
              | Inr d \<Rightarrow>
                  (case py_iter d of
                     Inl e \<Rightarrow> (Inl e, w3)
                   | Inr groups \<Rightarrow> (Inr (PyList groups), w3))))"

text \<open>\<^verbatim>\<open>device_create\<close>. The certificate is a string (\<^verbatim>\<open>str(cert)\<close> is itself). The debug line
  reads \<^verbatim>\<open>device['id']\<close> and \<^verbatim>\<open>devicetype['name']\<close> before anything else.\<close>

definition device_create_debug :: "sigfox \<Rightarrow> pyval \<Rightarrow> pyval \<Rightarrow> world \<Rightarrow> unit outcome" where
  "device_create_debug c device devicetype w =
     (if debug c then
        (case py_getitem device ''id'' of
           Inl e \<Rightarrow> (Inl e, w)
         | Inr i \<Rightarrow>
             (case py_concat ''Adding device '' i of
                Inl e \<Rightarrow> (Inl e, w)
              | Inr s1 \<Rightarrow>
                  (case py_getitem devicetype ''name'' of
                     Inl e \<Rightarrow> (Inl e, w)
                   | Inr nm \<Rightarrow>
                       (case py_concat (s1 @ '' to device type '') nm of
                          Inl e \<Rightarrow> (Inl e, w)
                        | Inr s2 \<Rightarrow> (Inr (), print (Print s2) w)))))
      else (Inr (), w))"

definition device_create :: "env \<Rightarrow> sigfox \<Rightarrow> pyval \<Rightarrow> string \<Rightarrow> pyval \<Rightarrow> world \<Rightarrow> pyval outcome" where
  "device_create E c device cert devicetype w =
     (case device_create_debug c device devicetype w of
        (Inl e, w1) \<Rightarrow> (Inl e, w1)
      | (Inr _, w1) \<Rightarrow>
          (case py_getitem device ''id'' of
             Inl e \<Rightarrow> (Inl e, w1)
           | Inr i \<Rightarrow>
               (case py_getitem device ''pac'' of
                  Inl e \<Rightarrow> (Inl e, w1)
                | Inr p \<Rightarrow>
                    (let to_post = PyDict [(''prefix'', PyStr ''api_added-''),
                                           (''ids'', PyList [PyDict [(''id'', i), (''pac'', p)]]),
                                           (''productCertificate'', PyStr cert)]
                     in case py_getitem devicetype ''id'' of
                          Inl e \<Rightarrow> (Inl e, w1)
                        | Inr t \<Rightarrow>
                            (case py_concat (api_url c @ ''devicetypes/'') t of
                               Inl e \<Rightarrow> (Inl e, w1)
                             | Inr u0 \<Rightarrow>
                                 (let u = u0 @ ''/devices/bulk/create/async'';
                                      w2 = (if debug c
                                            then print (PPrint to_post)
                                                   (print (Print ''Posting following data:'')
                                                      (print (Print (''Connecting to '' @ u)) w1))
                                            else w1);
                                      (r, w3) = http E \<lparr>verb = POST, url = u,
                                                         auth = (login c, password c), params = PyNone,
                                                         payload = JsonPayload to_post\<rparr> w2;
                                      w4 = (if debug c
                                            then print (PPrint (PyStr (''Response: '' @ body_text r))) w3
                                            else w3)
                                  in case loads E (body_text r) of
                                       None \<Rightarrow> (Inl (JSONDecodeError (body_text r)), w4)
                                     | Some j \<Rightarrow> (Inr j, w4)))))))"

text \<open>\<^verbatim>\<open>device_types_create\<close>: the argument \<^verbatim>\<open>new\<close> is never read; the dictionary that is
  posted is written out in the function, sent as form data (\<^verbatim>\<open>data=dtype\<close>), and the
  response object itself is returned.\<close>

definition device_types_create :: "env \<Rightarrow> sigfox \<Rightarrow> pyval \<Rightarrow> world \<Rightarrow> response outcome" where
  "device_types_create E c new w =
     (let dtype = PyDict [(''name'', PyStr ''test1''), (''contractId'', PyStr ''moire_la_30f0_30f1'')];
          u = api_url c @ ''devicetypes/create'';
          w1 = (if debug c then print (Print (''Connecting to '' @ u)) w else w);
          (r, w2) = http E \<lparr>verb = POST, url = u, auth = (login c, password c), params = PyNone,
                            payload = FormPayload dtype\<rparr> w1
      in (Inr r, w2))"

text \<open>\<^verbatim>\<open>device_list\<close>: \<^verbatim>\<open>out += r.json()['data']\<close> on an empty list; on any exception
  \<^verbatim>\<open>print(... + str(e)); pprint(r.text); raise\<close>.\<close>

definition device_list_failed :: "response \<Rightarrow> py_error \<Rightarrow> world \<Rightarrow> pyval outcome" where
  "device_list_failed r e w =
     (Inl e, print (PPrint (PyStr (body_text r)))
               (print (PrintExc ''Unable to access data from returned RESP API call: '' e) w))"

definition device_list :: "env \<Rightarrow> sigfox \<Rightarrow> pyval \<Rightarrow> world \<Rightarrow> pyval outcome" where
  "device_list E c device_type w =
     (case py_getitem device_type ''id'' of
        Inl e \<Rightarrow> (Inl e, w)
      | Inr t \<Rightarrow>
          (let (r, w1) = http E \<lparr>verb = GET, url = api_url c @ ''devices'',
                                 auth = (login c, password c),
                                 params = PyDict [(''deviceTypeId'', t)], payload = NoPayload\<rparr> w
           in case loads E (body_text r) of
                None \<Rightarrow> device_list_failed r (JSONDecodeError (body_text r)) w1
              | Some j \<Rightarrow>
                  (case py_getitem j ''data'' of
                     Inl e \<Rightarrow> device_list_failed r e w1
                   | Inr d \<Rightarrow>
                       (case py_iadd (PyList []) d of
                          Inl e \<Rightarrow> device_list_failed r e w1
                        | Inr out \<Rightarrow> (Inr out, w1)))))"

section \<open>The decorators of the rate-limiting package\<close>

text \<open>
  Both message functions are declared under \<^verbatim>\<open>@sleep_and_retry\<close> and
  \<^verbatim>\<open>@limits(calls=1, period=5)\<close>. The decorators come from the \<^verbatim>\<open>ratelimit\<close> package,
  which is imported, not part of the repository; they are modelled after that package, whose two wrappers are, in outline:
  \<^verbatim>\<open>
    def wrapper(*args, **kargs):              # RateLimitDecorator.__call__
        with self.lock:
            period_remaining = self.__period_remaining()   # period - (clock() - last_reset)
            if period_remaining <= 0:
                self.num_calls = 0
                self.last_reset = self.clock()
            self.num_calls += 1
            if self.num_calls > self.clamped_calls:        # max(1, min(maxsize, floor(calls)))
                if self.raise_on_limit:
                    raise RateLimitException('too many calls', period_remaining)
                return
        return func(*args, **kargs)

    def wrapper(*args, **kargs):              # sleep_and_retry
        while True:
            try:
                return func(*args, **kargs)
            except RateLimitException as exception:
                time.sleep(exception.period_remaining)
  \<close>
  \<open>limits\<close> takes the place of the decorator object in the process state (how to read
  and to write it). The loop of \<open>sleep_and_retry\<close> may go on for ever: it runs on fuel, and
  \<open>None\<close> is "no answer within this many rounds". \<^verbatim>\<open>time.sleep\<close> raises \<^verbatim>\<open>ValueError\<close> when
  its argument is negative; here it is only ever given the 5 of the function bodies or the
  remainder of a window that is not over, which is positive (\<open>limits_refusal_positive\<close>).
\<close>

definition limits ::
  "nat \<Rightarrow> real \<Rightarrow> (world \<Rightarrow> rate_limit) \<Rightarrow> (rate_limit \<Rightarrow> world \<Rightarrow> world) \<Rightarrow>
   (world \<Rightarrow> 'a outcome option) \<Rightarrow> world \<Rightarrow> 'a outcome option" where
  "limits calls period get put func w =
     (let L = get w;
          period_remaining = period - (clock w - last_reset L);
          L1 = (if period_remaining \<le> 0 then L\<lparr>num_calls := 0, last_reset := clock w\<rparr> else L);
          L2 = L1\<lparr>num_calls := num_calls L1 + 1\<rparr>;
          w1 = put L2 w
      in if num_calls L2 > max 1 calls
         then Some (Inl (RateLimitException ''too many calls'' period_remaining), w1)
         else func w1)"

fun sleep_and_retry :: "nat \<Rightarrow> (world \<Rightarrow> 'a outcome option) \<Rightarrow> world \<Rightarrow> 'a outcome option" where
  "sleep_and_retry 0 func w = None"
| "sleep_and_retry (Suc n) func w =
     (case func w of
        None \<Rightarrow> None
      | Some (Inl (RateLimitException msg period_remaining), w1) \<Rightarrow>
          sleep_and_retry n func (time_sleep period_remaining w1)
      | Some res \<Rightarrow> Some res)"

section \<open>Message retrieval\<close>

text \<open>
  The \<^verbatim>\<open>try\<close> block that both message functions end with, word for word the same in the
  two: \<open>page\<close> is \<^verbatim>\<open>self.device_messages_page\<close>. \<open>reraise\<close> is the outer handler
  (\<^verbatim>\<open>pprint(r.text); raise\<close>), \<open>except_KeyError\<close> the inner one (\<^verbatim>\<open>except KeyError: pass\<close>),
  through which every exception of the line
  \<^verbatim>\<open>out += self.device_messages_page(r_deserialized['paging']['next'])\<close> goes first.
\<close>

definition reraise :: "response \<Rightarrow> py_error \<Rightarrow> world \<Rightarrow> pyval outcome" where
  "reraise r e w = (Inl e, print (PPrint (PyStr (body_text r))) w)"

definition except_KeyError :: "response \<Rightarrow> pyval \<Rightarrow> py_error \<Rightarrow> world \<Rightarrow> pyval outcome" where
  "except_KeyError r out e w = (case e of KeyError k \<Rightarrow> (Inr out, w) | _ \<Rightarrow> reraise r e w)"

definition paging_next :: "pyval \<Rightarrow> py_error + pyval" where
  "paging_next j = (case py_getitem j ''paging'' of Inl e \<Rightarrow> Inl e | Inr p \<Rightarrow> py_getitem p ''next'')"

definition messages_try ::
  "(pyval \<Rightarrow> world \<Rightarrow> pyval outcome option) \<Rightarrow> env \<Rightarrow> response \<Rightarrow> world \<Rightarrow> pyval outcome option" where
  "messages_try page E r w =
     (case loads E (body_text r) of
        None \<Rightarrow> Some (reraise r (JSONDecodeError (body_text r)) w)
      | Some r_deserialized \<Rightarrow>
          (case py_getitem r_deserialized ''data'' of
             Inl e \<Rightarrow> Some (reraise r e w)
           | Inr out \<Rightarrow>
               (case paging_next r_deserialized of
                  Inl e \<Rightarrow> Some (except_KeyError r out e w)
                | Inr nxt \<Rightarrow>
                    (case page nxt w of
                       None \<Rightarrow> None
                     | Some (Inl e, w1) \<Rightarrow> Some (except_KeyError r out e w1)
                     | Some (Inr rest, w1) \<Rightarrow>
                         (case py_iadd out rest of
                            Inl e \<Rightarrow> Some (except_KeyError r out e w1)
                          | Inr out1 \<Rightarrow> Some (Inr out1, w1))))))"

text \<open>
  Two facts about the \<^verbatim>\<open>requests\<close> library that the message functions depend on, as
  parameters: how many stack frames a call of \<^verbatim>\<open>requests.get\<close> needs below its caller, and
  which strings it accepts as a URL (an absolute http or https URL with a host); for any
  other string it raises and sends nothing.
\<close>

record requests_lib =
  frames_needed :: nat
  accepts :: "string \<Rightarrow> bool"

text \<open>
  The bodies of the two functions, as written under the decorators. \<open>d\<close> is the number of
  frames that the interpreter still allows below the frame of the body. \<^verbatim>\<open>requests.get\<close> is
  the first call of the body and is taken to be its deepest library call (what fits it
  fits \<^verbatim>\<open>r.json()\<close> and \<^verbatim>\<open>pprint\<close>); when it does not fit, it ends in \<^verbatim>\<open>RecursionError\<close> before
  anything is sent. In \<^verbatim>\<open>device_messages_page\<close> the URL is the caller's (a \<^verbatim>\<open>paging.next\<close>
  value): what is not a string, or a string that \<^verbatim>\<open>requests\<close> does not accept, makes
  \<^verbatim>\<open>requests.get\<close> raise. The URL of \<^verbatim>\<open>device_messages\<close> is built on \<^verbatim>\<open>api_url\<close>.
\<close>

definition device_messages_page_body ::
  "(pyval \<Rightarrow> world \<Rightarrow> pyval outcome option) \<Rightarrow> nat \<Rightarrow> requests_lib \<Rightarrow> env \<Rightarrow> sigfox \<Rightarrow>
   pyval \<Rightarrow> world \<Rightarrow> pyval outcome option" where
  "device_messages_page_body page d R E c u w =
     (if d < frames_needed R then Some (Inl RecursionError, w)
      else
        (case u of
           PyStr s \<Rightarrow>
             (if accepts R s then
                (let (r, w1) = http E \<lparr>verb = GET, url = s, auth = (login c, password c),
                                       params = PyNone, payload = NoPayload\<rparr> w
                 in if status_code r = 429
                    then Some (Inl (RateLimitException ''Exceeded Sigfox API rate limit'' 5), w1)
                    else messages_try page E r w1)
              else Some (Inl RequestException, w))
         | _ \<Rightarrow> Some (Inl RequestException, w)))"

definition device_messages_body ::
  "(pyval \<Rightarrow> world \<Rightarrow> pyval outcome option) \<Rightarrow> nat \<Rightarrow> requests_lib \<Rightarrow> env \<Rightarrow> sigfox \<Rightarrow>
   string \<Rightarrow> pyval \<Rightarrow> world \<Rightarrow> pyval outcome option" where
  "device_messages_body page d R E c device_id ps w =
     (if d < frames_needed R then Some (Inl RecursionError, w)
      else
        (let ps1 = (if ps = PyNone then PyDict [(''limit'', PyInt 10)] else ps);
             u = api_url c @ ''devices/'' @ device_id @ ''/messages'';
             (r, w1) = http E \<lparr>verb = GET, url = u, auth = (login c, password c),
                               params = ps1, payload = NoPayload\<rparr> w
         in if status_code r = 429
            then Some (Inl (RateLimitException ''Exceeded Sigfox API rate limit'' 5), w1)
            else messages_try page E r w1))"

text \<open>
  The decorated functions, as a caller (and the recursive call) reaches them. \<open>d\<close> is the
  number of frames that the interpreter still allows when the function is called: its
  recursion limit less the depth of the caller. A call takes three frames before the body
  runs: the wrapper of \<^verbatim>\<open>sleep_and_retry\<close>, the wrapper of \<^verbatim>\<open>limits\<close> (which needs the third for
  its call of \<^verbatim>\<open>self.__period_remaining()\<close>, before it touches its state), and the body. With
  fewer than three the call ends in \<^verbatim>\<open>RecursionError\<close> and nothing has happened; with three
  or more the body runs with \<open>d - 3\<close> frames left, which is also what the call for the next
  page gets. So the recursion over pages is bounded by the frames, and the error that ends
  it is a result. The fuel \<open>n\<close> bounds the rounds of each retry loop only.
\<close>

fun device_messages_page ::
  "nat \<Rightarrow> nat \<Rightarrow> requests_lib \<Rightarrow> env \<Rightarrow> sigfox \<Rightarrow> pyval \<Rightarrow> world \<Rightarrow> pyval outcome option" where
  "device_messages_page n d R E c u w =
     (if d < 3 then Some (Inl RecursionError, w)
      else sleep_and_retry n
             (limits 1 5 limits_page (\<lambda>L w. w\<lparr>limits_page := L\<rparr>)
                (device_messages_page_body (\<lambda>nxt w1. device_messages_page n (d - 3) R E c nxt w1)
                   (d - 3) R E c u)) w)"

definition device_messages ::
  "nat \<Rightarrow> nat \<Rightarrow> requests_lib \<Rightarrow> env \<Rightarrow> sigfox \<Rightarrow> string \<Rightarrow> pyval \<Rightarrow> world \<Rightarrow> pyval outcome option" where
  "device_messages n d R E c device_id ps w =
     (if d < 3 then Some (Inl RecursionError, w)
      else sleep_and_retry n
             (limits 1 5 limits_messages (\<lambda>L w. w\<lparr>limits_messages := L\<rparr>)
                (device_messages_body (device_messages_page n (d - 3) R E c) (d - 3) R E c device_id ps)) w)"

text \<open>The process state right after the module has been imported at time \<open>t\<close>: nothing
  requested, nothing printed, both decorator objects as their constructor leaves them
  (\<^verbatim>\<open>self.last_reset = clock()\<close>, \<^verbatim>\<open>self.num_calls = 0\<close>).\<close>

definition fresh :: "real \<Rightarrow> world" where
  "fresh t = \<lparr>clock = t, log = [], stdout = [],
              limits_page = \<lparr>last_reset = t, num_calls = 0\<rparr>,
              limits_messages = \<lparr>last_reset = t, num_calls = 0\<rparr>\<rparr>"

section \<open>Requests, backends and envelopes of the statements\<close>

text \<open>The requests that the client issues: a plain authenticated GET of a URL, and the
  first request of \<^verbatim>\<open>device_messages\<close> with its query parameters.\<close>

definition get_request :: "sigfox \<Rightarrow> string \<Rightarrow> request" where
  "get_request c s = \<lparr>verb = GET, url = s, auth = (login c, password c), params = PyNone, payload = NoPayload\<rparr>"

definition first_request :: "sigfox \<Rightarrow> string \<Rightarrow> pyval \<Rightarrow> request" where
  "first_request c device_id ps =
     \<lparr>verb = GET, url = api_url c @ ''devices/'' @ device_id @ ''/messages'', auth = (login c, password c),
      params = (if ps = PyNone then PyDict [(''limit'', PyInt 10)] else ps), payload = NoPayload\<rparr>"

text \<open>
  A backend that serves a finite chain of pages from a request on, whatever was requested
  before and whenever: each answer is not a 429, is JSON, carries the page's records as
  its \<^verbatim>\<open>data\<close> array, and either names the next page in \<^verbatim>\<open>paging.next\<close>, by a URL that
  \<^verbatim>\<open>requests\<close> accepts, or, for the last page of the list, is an envelope that \<open>final\<close> holds
  of. The chain is finite and has no cycle because the list is.
\<close>

fun walk ::
  "(pyval \<Rightarrow> bool) \<Rightarrow> requests_lib \<Rightarrow> env \<Rightarrow> sigfox \<Rightarrow> request \<Rightarrow> pyval list list \<Rightarrow> bool" where
  "walk final R E c rq [] = False"
| "walk final R E c rq [d] =
     (\<forall>h. status_code (backend E h rq) \<noteq> 429 \<and>
          (\<exists>j. loads E (body_text (backend E h rq)) = Some j \<and>
               py_getitem j ''data'' = Inr (PyList d) \<and> final j))"
| "walk final R E c rq (d # ds) =
     (\<forall>h. status_code (backend E h rq) \<noteq> 429 \<and>
          (\<exists>j s. loads E (body_text (backend E h rq)) = Some j \<and>
               py_getitem j ''data'' = Inr (PyList d) \<and> paging_next j = Inr (PyStr s) \<and>
               accepts R s \<and> walk final R E c (get_request c s) ds))"

text \<open>The two ways a chain ends here: the last envelope has no \<^verbatim>\<open>paging.next\<close> (the lookup
  raises \<^verbatim>\<open>KeyError\<close>), or it names a next page whose answer is a JSON object without the
  key \<^verbatim>\<open>data\<close>.\<close>

definition no_next :: "pyval \<Rightarrow> bool" where
  "no_next j = (\<exists>k. paging_next j = Inl (KeyError k))"

definition lacks_data :: "env \<Rightarrow> request \<Rightarrow> bool" where
  "lacks_data E rq =
     (\<forall>h. status_code (backend E h rq) \<noteq> 429 \<and>
          (\<exists>kvs. loads E (body_text (backend E h rq)) = Some (PyDict kvs) \<and> map_of kvs ''data'' = None))"

definition next_lacks_data :: "requests_lib \<Rightarrow> env \<Rightarrow> sigfox \<Rightarrow> pyval \<Rightarrow> bool" where
  "next_lacks_data R E c j =
     (\<exists>s. paging_next j = Inr (PyStr s) \<and> accepts R s \<and> lacks_data E (get_request c s))"

text \<open>
  When the decorator whose state is \<open>L\<close> lets through a call that reaches it at time
  \<open>now\<close>: at once when it has counted no call or its window is over, and when the window
  is over otherwise (the call sleeps until then).
\<close>

definition let_through_at :: "rate_limit \<Rightarrow> real \<Rightarrow> real" where
  "let_through_at L now = (if num_calls L = 0 \<or> last_reset L + 5 \<le> now then now else last_reset L + 5)"

text \<open>Times in ascending order, each at least \<open>p\<close> after the one before.\<close>

fun spaced :: "real \<Rightarrow> real list \<Rightarrow> bool" where
  "spaced p [] = True"
| "spaced p [t] = True"
| "spaced p (t # t' # ts) = (t + p \<le> t' \<and> spaced p (t' # ts))"

text \<open>
  Which of the two message functions issued a request of the log: those of
  \<^verbatim>\<open>device_messages_page\<close> carry no query parameters, those of \<^verbatim>\<open>device_messages\<close> always do (the
  default \<^verbatim>\<open>{'limit': 10}\<close> takes the place of \<^verbatim>\<open>None\<close>). \<open>times own xs\<close> are the times at which
  the requests of \<open>xs\<close> that \<open>own\<close> holds of were issued.
\<close>

definition by_page :: "exchange \<Rightarrow> bool" where
  "by_page x = (params (req x) = PyNone)"

definition by_messages :: "exchange \<Rightarrow> bool" where
  "by_messages x = (params (req x) \<noteq> PyNone)"

definition times :: "(exchange \<Rightarrow> bool) \<Rightarrow> exchange list \<Rightarrow> real list" where
  "times own xs = map sent_at (filter own xs)"

text \<open>
  A decorator has started when it has counted a call or its first window, which begins
  when the class is defined, is over. \<open>limiter_ok\<close> is what holds of a decorator and the
  times \<open>ts\<close> of the requests that went through it: they are 5 seconds apart, the last of
  them was issued no later than \<^verbatim>\<open>last_reset\<close>, and the decorator has started.
  \<open>let_through\<close> holds when the decorator has just let a call through, whose request is
  still to come. \<open>paced h0 w\<close>: both decorators are in order with the requests that the log
  of \<open>w\<close> has beyond \<open>h0\<close>.
\<close>

definition started :: "rate_limit \<Rightarrow> real \<Rightarrow> bool" where
  "started L now = (1 \<le> num_calls L \<or> last_reset L + 5 \<le> now)"

definition limiter_ok :: "rate_limit \<Rightarrow> real \<Rightarrow> real list \<Rightarrow> bool" where
  "limiter_ok L now ts =
     (spaced 5 ts \<and> (ts \<noteq> [] \<longrightarrow> last ts \<le> last_reset L) \<and> started L now)"

definition let_through :: "rate_limit \<Rightarrow> real \<Rightarrow> real list \<Rightarrow> bool" where
  "let_through L now ts =
     (spaced 5 ts \<and> (ts \<noteq> [] \<longrightarrow> last ts + 5 \<le> now) \<and> num_calls L = 1 \<and> last_reset L = now)"

definition paced :: "exchange list \<Rightarrow> world \<Rightarrow> bool" where
  "paced h0 w =
     (\<exists>new. log w = h0 @ new \<and>
            limiter_ok (limits_page w) (clock w) (times by_page new) \<and>
            limiter_ok (limits_messages w) (clock w) (times by_messages new))"

text \<open>A call of one of the two message functions.\<close>

datatype call = Messages string pyval | Page pyval

fun invoke ::
  "nat \<Rightarrow> nat \<Rightarrow> requests_lib \<Rightarrow> env \<Rightarrow> sigfox \<Rightarrow> call \<Rightarrow> world \<Rightarrow> pyval outcome option" where
  "invoke n d R E c (Messages device_id ps) w = device_messages n d R E c device_id ps w"
| "invoke n d R E c (Page u) w = device_messages_page n d R E c u w"

text \<open>
  What the two message functions have in common, for the proofs: \<open>fetch\<close> is either body
  from its request on (for \<^verbatim>\<open>device_messages_page\<close>, once the URL is one that \<^verbatim>\<open>requests\<close>
  accepts), and \<open>run\<close> is the function under its two decorators, with the decorator object
  given by how to read and to write it.
\<close>

definition fetch ::
  "(pyval \<Rightarrow> world \<Rightarrow> pyval outcome option) \<Rightarrow> nat \<Rightarrow> requests_lib \<Rightarrow> env \<Rightarrow> request \<Rightarrow>
   world \<Rightarrow> pyval outcome option" where
  "fetch page d R E rq w =
     (if d < frames_needed R then Some (Inl RecursionError, w)
      else
        (let r = backend E (log w) rq; w1 = snd (http E rq w)
         in if status_code r = 429
            then Some (Inl (RateLimitException ''Exceeded Sigfox API rate limit'' 5), w1)
            else messages_try page E r w1))"

definition run ::
  "(world \<Rightarrow> rate_limit) \<Rightarrow> (rate_limit \<Rightarrow> world \<Rightarrow> world) \<Rightarrow> nat \<Rightarrow> nat \<Rightarrow> requests_lib \<Rightarrow>
   env \<Rightarrow> sigfox \<Rightarrow> request \<Rightarrow> world \<Rightarrow> pyval outcome option" where
  "run get put n d R E c rq w =
     (if d < 3 then Some (Inl RecursionError, w)
      else sleep_and_retry n
             (limits 1 5 get put (fetch (device_messages_page n (d - 3) R E c) (d - 3) R E rq)) w)"

definition lens :: "(world \<Rightarrow> rate_limit) \<Rightarrow> (rate_limit \<Rightarrow> world \<Rightarrow> world) \<Rightarrow> bool" where
  "lens get put =
     ((\<forall>L w. get (put L w) = L) \<and> (\<forall>L w. clock (put L w) = clock w) \<and>
      (\<forall>L w. log (put L w) = log w) \<and> (\<forall>s w. get (time_sleep s w) = get w))"

text \<open>Concrete backends for the instances below. The body text stands for the JSON
  document that the parser maps it to. The library of the instances accepts what starts
  with \<^verbatim>\<open>https://\<close> and goes on, and a request takes 20 frames.\<close>

definition demo_lib :: requests_lib where
  "demo_lib = \<lparr>frames_needed = 20, accepts = (\<lambda>s. take 8 s = ''https://'' \<and> 8 < length s)\<rparr>"

definition demo_client :: sigfox where
  "demo_client = \<lparr>login = ''user'', password = ''secret'', api_url = ''https://api.sigfox.com/v2/'', debug = False\<rparr>"

definition two_pages :: "exchange list \<Rightarrow> request \<Rightarrow> response" where
  "two_pages h rq =
     (if url rq = ''https://api.sigfox.com/v2/devices/1A/messages''
      then \<lparr>status_code = 200, body_text = ''page 1'', elapsed = 1 / 10\<rparr>
      else if url rq = ''https://api.sigfox.com/v2/devices/1A/messages?before=11''
      then \<lparr>status_code = 200, body_text = ''page 2'', elapsed = 1 / 10\<rparr>
      else \<lparr>status_code = 404, body_text = ''Not Found'', elapsed = 1 / 10\<rparr>)"

definition ten_records :: "pyval list" where
  "ten_records = [PyInt 1, PyInt 2, PyInt 3, PyInt 4, PyInt 5, PyInt 6, PyInt 7, PyInt 8, PyInt 9, PyInt 10]"

definition five_records :: "pyval list" where
  "five_records = [PyInt 11, PyInt 12, PyInt 13, PyInt 14, PyInt 15]"

definition two_pages_loads :: "string \<Rightarrow> pyval option" where
  "two_pages_loads s =
     (if s = ''page 1''
      then Some (PyDict [(''data'', PyList ten_records),
                         (''paging'', PyDict [(''next'', PyStr ''https://api.sigfox.com/v2/devices/1A/messages?before=11'')])])
      else if s = ''page 2''
      then Some (PyDict [(''data'', PyList five_records), (''paging'', PyDict [])])
      else None)"

definition two_pages_env :: env where
  "two_pages_env = \<lparr>backend = two_pages, loads = two_pages_loads\<rparr>"


definition debug_client :: sigfox where
  "debug_client = \<lparr>login = ''user'', password = ''secret'', api_url = ''https://api.sigfox.com/v2/'', debug = True\<rparr>"

definition wrapped :: "exchange list \<Rightarrow> request \<Rightarrow> response" where
  "wrapped h rq = \<lparr>status_code = 200, body_text = ''enveloped device'', elapsed = 1 / 10\<rparr>"

definition wrapped_loads :: "string \<Rightarrow> pyval option" where
  "wrapped_loads s =
     (if s = ''enveloped device''
      then Some (PyDict [(''data'', PyDict [(''id'', PyStr ''1A''), (''name'', PyStr ''probe'')])])
      else None)"

definition wrapped_env :: env where
  "wrapped_env = \<lparr>backend = wrapped, loads = wrapped_loads\<rparr>"

definition demo_device :: pyval where
  "demo_device = PyDict [(''id'', PyStr ''1A''), (''pac'', PyStr ''0F0F'')]"

definition demo_devicetype :: pyval where
  "demo_devicetype = PyDict [(''id'', PyStr ''5d01''), (''name'', PyStr ''trackers'')]"

definition truncated :: "exchange list \<Rightarrow> request \<Rightarrow> response" where
  "truncated h rq =
     (if url rq = ''https://api.sigfox.com/v2/devices/1A/messages''
      then \<lparr>status_code = 200, body_text = ''page 1'', elapsed = 1 / 10\<rparr>
      else \<lparr>status_code = 200, body_text = ''no data'', elapsed = 1 / 10\<rparr>)"

definition truncated_loads :: "string \<Rightarrow> pyval option" where
  "truncated_loads s =
     (if s = ''page 1''
      then Some (PyDict [(''data'', PyList five_records),
                         (''paging'', PyDict [(''next'', PyStr ''https://api.sigfox.com/v2/devices/1A/messages?before=11'')])])
      else if s = ''no data''
      then Some (PyDict [(''message'', PyStr ''Internal error'')])
      else None)"

definition truncated_env :: env where
  "truncated_env = \<lparr>backend = truncated, loads = truncated_loads\<rparr>"


definition throttled_once :: "exchange list \<Rightarrow> request \<Rightarrow> response" where
  "throttled_once h rq =
     (if h = [] then \<lparr>status_code = 429, body_text = ''Too Many Requests'', elapsed = 1 / 10\<rparr>
      else \<lparr>status_code = 200, body_text = ''one page'', elapsed = 1 / 10\<rparr>)"

definition throttled_once_loads :: "string \<Rightarrow> pyval option" where
  "throttled_once_loads s =
     (if s = ''one page'' then Some (PyDict [(''data'', PyList five_records)]) else None)"

definition throttled_once_env :: env where
  "throttled_once_env = \<lparr>backend = throttled_once, loads = throttled_once_loads\<rparr>"

definition always_throttled :: "exchange list \<Rightarrow> request \<Rightarrow> response" where
  "always_throttled h rq = \<lparr>status_code = 429, body_text = ''Too Many Requests'', elapsed = 1 / 10\<rparr>"

definition always_throttled_env :: env where
  "always_throttled_env = \<lparr>backend = always_throttled, loads = throttled_once_loads\<rparr>"

definition not_json :: "exchange list \<Rightarrow> request \<Rightarrow> response" where
  "not_json h rq = \<lparr>status_code = 502, body_text = ''<html>Bad Gateway</html>'', elapsed = 1 / 10\<rparr>"

definition not_json_env :: env where
  "not_json_env = \<lparr>backend = not_json, loads = throttled_once_loads\<rparr>"


definition no_messages :: "exchange list \<Rightarrow> request \<Rightarrow> response" where
  "no_messages h rq = \<lparr>status_code = 200, body_text = ''no messages'', elapsed = 1 / 10\<rparr>"

definition no_messages_loads :: "string \<Rightarrow> pyval option" where
  "no_messages_loads s = (if s = ''no messages'' then Some (PyDict [(''data'', PyList [])]) else None)"

definition no_messages_env :: env where
  "no_messages_env = \<lparr>backend = no_messages, loads = no_messages_loads\<rparr>"

text \<open>
  A backend with a chain of \<open>N\<close> pages, page \<open>i\<close> at the URL of the first request followed
  by \<open>i\<close> plus signs, with the one record \<open>i\<close>. The body of an answer is the URL asked
  for. With \<open>broken\<close>, the last page names a next one, whose answer has no \<^verbatim>\<open>data\<close>.
\<close>

definition page_url :: "nat \<Rightarrow> string" where
  "page_url i = ''https://api.sigfox.com/v2/devices/1A/messages'' @ replicate i (CHR ''+'')"

definition echo :: "exchange list \<Rightarrow> request \<Rightarrow> response" where
  "echo h rq = \<lparr>status_code = 200, body_text = url rq, elapsed = 1 / 10\<rparr>"

definition long_loads :: "nat \<Rightarrow> bool \<Rightarrow> string \<Rightarrow> pyval option" where
  "long_loads N broken s =
     (let i = length s - length (page_url 0)
      in if s \<noteq> page_url i then None
         else if i < N then
           Some (PyDict [(''data'', PyList [PyInt (int i)]),
                         (''paging'', if Suc i < N \<or> broken
                                      then PyDict [(''next'', PyStr (page_url (Suc i)))]
                                      else PyDict [])])
         else if i = N \<and> broken then Some (PyDict [(''message'', PyStr ''Internal error'')])
         else None)"

definition long_env :: "nat \<Rightarrow> bool \<Rightarrow> env" where
  "long_env N broken = \<lparr>backend = echo, loads = long_loads N broken\<rparr>"

definition long_pages :: "nat \<Rightarrow> nat \<Rightarrow> pyval list list" where
  "long_pages i N = map (\<lambda>k. [PyInt (int k)]) [i..<N]"

text \<open>The process a minute after the import: both decorators' first windows are over.\<close>

definition a_minute_in :: world where
  "a_minute_in = time_sleep 60 (fresh 0)"

section \<open>Properties\<close>

declare device_messages_page.simps [simp del]

subsection \<open>The transport and the decorators\<close>

lemma http_log: "log (snd (http E rq w)) = log w @ [\<lparr>sent_at = clock w, req = rq\<rparr>]"
  by (simp add: http_def Let_def)

lemma http_fst: "fst (http E rq w) = backend E (log w) rq"
  by (simp add: http_def Let_def)

lemma print_log: "log (print x w) = log w"
  by (simp add: print_def)

lemma sleep_and_retry_never_rate_limit:
  "sleep_and_retry n func w \<noteq> Some (Inl (RateLimitException m p), w')"
  by (induction n func w rule: sleep_and_retry.induct)
     (auto split: option.splits sum.splits py_error.splits prod.splits)

lemma limits_refusal_positive:
  assumes "limits calls period get put (\<lambda>w. None) w = Some (Inl (RateLimitException m r), w')"
  shows "0 < r"
  using assms by (auto simp: limits_def Let_def split: if_splits)

lemma decorated_runs:
  fixes get :: "world \<Rightarrow> rate_limit" and put func
  assumes gp: "\<And>L w. get (put L w) = L" "\<And>L w. clock (put L w) = clock w"
              "\<And>s w. get (time_sleep s w) = get w" "\<And>L w. log (put L w) = log w"
    and body: "\<And>w1. log w1 = log w \<Longrightarrow> \<exists>r w'. func w1 = Some (r, w') \<and> Q r w'"
    and nrl: "\<And>m p w'. \<not> Q (Inl (RateLimitException m p)) w'"
  shows "\<exists>r w'. sleep_and_retry (Suc (Suc n)) (limits 1 5 get put func) w = Some (r, w') \<and> Q r w'"
proof -
  let ?F = "limits 1 5 get put func"
  have pass: "\<exists>r w'. sleep_and_retry (Suc k) ?F v = Some (r, w') \<and> Q r w'"
    if "num_calls (get v) = 0 \<or> last_reset (get v) + 5 \<le> clock v" and "log v = log w" for v k
  proof -
    define L2 where "L2 = (let L = get v; L1 = (if 5 - (clock v - last_reset L) \<le> 0 then L\<lparr>num_calls := 0, last_reset := clock v\<rparr> else L) in L1\<lparr>num_calls := num_calls L1 + 1\<rparr>)"
    have "num_calls L2 = 1" using that by (auto simp: L2_def Let_def)
    then have F: "?F v = func (put L2 v)"
      by (simp add: limits_def Let_def L2_def)
    have "log (put L2 v) = log w" using that by (simp add: gp)
    then obtain r w' where r: "func (put L2 v) = Some (r, w')" "Q r w'" using body by blast
    with nrl have "\<And>m p. r \<noteq> Inl (RateLimitException m p)" by auto
    with r F have "sleep_and_retry (Suc k) ?F v = Some (r, w')"
      by (auto split: sum.splits py_error.splits)
    with r show ?thesis by blast
  qed
  show ?thesis
  proof (cases "num_calls (get w) = 0 \<or> last_reset (get w) + 5 \<le> clock w")
    case True
    then show ?thesis by (intro pass) auto
  next
    case False
    define L2 where "L2 = (get w)\<lparr>num_calls := num_calls (get w) + 1\<rparr>"
    define rem where "rem = 5 - (clock w - last_reset (get w))"
    from False have F: "?F w = Some (Inl (RateLimitException ''too many calls'' rem), put L2 w)"
      by (auto simp: limits_def Let_def L2_def rem_def)
    let ?v = "time_sleep rem (put L2 w)"
    have "get ?v = L2" by (simp add: gp)
    moreover have "clock ?v = clock w + rem" by (simp add: time_sleep_def gp)
    ultimately have "last_reset (get ?v) + 5 \<le> clock ?v"
      by (simp add: L2_def rem_def)
    moreover have "log ?v = log w" by (simp add: time_sleep_def gp)
    ultimately have "\<exists>r w'. sleep_and_retry (Suc n) ?F ?v = Some (r, w') \<and> Q r w'"
      using pass by blast
    with F show ?thesis by simp
  qed
qed



lemma sleep_and_retry_for_ever:
  assumes "\<And>w. \<exists>m p w'. func w = Some (Inl (RateLimitException m p), w')"
  shows "sleep_and_retry n func w = None"
proof (induction n arbitrary: w)
  case 0
  show ?case by simp
next
  case (Suc n)
  from assms obtain m p w' where "func w = Some (Inl (RateLimitException m p), w')" by blast
  with Suc show ?case by simp
qed

lemma limits_refuses_or_runs:
  "(\<exists>p w'. limits calls period get put func w = Some (Inl (RateLimitException ''too many calls'' p), w')) \<or>
   (\<exists>w1. limits calls period get put func w = func w1)"
  by (auto simp: limits_def Let_def)

subsection \<open>The two message functions in their common shape\<close>

lemma lens_page: "lens limits_page (\<lambda>L w. w\<lparr>limits_page := L\<rparr>)"
  by (simp add: lens_def time_sleep_def)

lemma lens_messages: "lens limits_messages (\<lambda>L w. w\<lparr>limits_messages := L\<rparr>)"
  by (simp add: lens_def time_sleep_def)

lemma page_is_run:
  "accepts R s \<Longrightarrow>
   device_messages_page n d R E c (PyStr s) w =
     run limits_page (\<lambda>L w. w\<lparr>limits_page := L\<rparr>) n d R E c (get_request c s) w"
proof -
  assume a: "accepts R s"
  have "device_messages_page_body page d' R E c (PyStr s) = fetch page d' R E (get_request c s)" for page d'
    using a by (auto simp: device_messages_page_body_def fetch_def get_request_def http_def Let_def)
  then show ?thesis
    by (simp add: device_messages_page.simps [of n d] run_def)
qed

lemma messages_is_run:
  "device_messages n d R E c device_id ps w =
     run limits_messages (\<lambda>L w. w\<lparr>limits_messages := L\<rparr>) n d R E c (first_request c device_id ps) w"
proof -
  have "device_messages_body page d' R E c device_id ps = fetch page d' R E (first_request c device_id ps)" for page d'
    by (auto simp: device_messages_body_def fetch_def first_request_def http_def Let_def)
  then show ?thesis
    by (simp add: device_messages_def run_def)
qed

lemma page_not_url:
  "3 \<le> d \<Longrightarrow> frames_needed R \<le> d - 3 \<Longrightarrow> 2 \<le> n \<Longrightarrow> \<not> accepts R s \<Longrightarrow>
   \<exists>w'. device_messages_page n d R E c (PyStr s) w = Some (Inl RequestException, w')"
proof -
  assume d: "3 \<le> d" "frames_needed R \<le> d - 3" and n: "2 \<le> n" and a: "\<not> accepts R s"
  from n obtain m where m: "n = Suc (Suc m)" by (cases n; cases "n - 1") auto
  let ?body = "device_messages_page_body (device_messages_page n (d - 3) R E c) (d - 3) R E c (PyStr s)"
  have "\<exists>r w'. sleep_and_retry (Suc (Suc m)) (limits 1 5 limits_page (\<lambda>L w. w\<lparr>limits_page := L\<rparr>) ?body) w = Some (r, w')
          \<and> r = Inl RequestException"
  proof (rule decorated_runs [where Q = "\<lambda>r w'. r = Inl RequestException"])
    show "\<exists>r w'. ?body w1 = Some (r, w') \<and> r = Inl RequestException" for w1
      using d a by (simp add: device_messages_page_body_def)
  qed (simp_all add: time_sleep_def)
  moreover have "device_messages_page n d R E c (PyStr s) w =
      sleep_and_retry n (limits 1 5 limits_page (\<lambda>L w. w\<lparr>limits_page := L\<rparr>) ?body) w"
    using d by (subst device_messages_page.simps) simp
  ultimately show ?thesis unfolding m by simp
qed

lemma run_result:
  assumes l: "lens get put" and n: "2 \<le> n" and d: "3 \<le> d"
    and body: "\<And>w1. log w1 = log w \<Longrightarrow>
                 \<exists>w'. fetch (device_messages_page n (d - 3) R E c) (d - 3) R E rq w1 = Some (res, w')"
    and nrl: "\<And>m p. res \<noteq> Inl (RateLimitException m p)"
  shows "\<exists>w'. run get put n d R E c rq w = Some (res, w')"
proof -
  from n obtain m where m: "n = Suc (Suc m)" by (cases n; cases "n - 1") auto
  let ?f = "fetch (device_messages_page n (d - 3) R E c) (d - 3) R E rq"
  have "\<exists>r w'. sleep_and_retry (Suc (Suc m)) (limits 1 5 get put ?f) w = Some (r, w') \<and> r = res"
  proof (rule decorated_runs [where Q = "\<lambda>r w'. r = res"])
    show "\<exists>r w'. ?f w1 = Some (r, w') \<and> r = res" if "log w1 = log w" for w1
      using body [OF that] by simp
  qed (use l nrl in \<open>auto simp: lens_def\<close>)
  with d show ?thesis by (simp add: run_def m)
qed

lemma messages_try_next:
  assumes "loads E (body_text r) = Some j" "py_getitem j ''data'' = Inr (PyList d)"
    "paging_next j = Inr nxt" "page nxt w = Some (Inr (PyList rest), w')"
  shows "messages_try page E r w = Some (Inr (PyList (d @ rest)), w')"
  using assms by (simp add: messages_try_def)

lemma messages_try_next_recursion_error:
  assumes "loads E (body_text r) = Some j" "py_getitem j ''data'' = Inr out"
    "paging_next j = Inr nxt" "page nxt w = Some (Inl RecursionError, w')"
  shows "\<exists>w''. messages_try page E r w = Some (Inl RecursionError, w'')"
  using assms by (simp add: messages_try_def except_KeyError_def reraise_def)

text \<open>A chain that fits: \<open>k\<close> is what the last page needs below its body.\<close>

lemma run_walk:
  assumes fin: "\<And>j r w d' p. final j \<Longrightarrow> loads E (body_text r) = Some j \<Longrightarrow>
            py_getitem j ''data'' = Inr (PyList p) \<Longrightarrow> k \<le> d' \<Longrightarrow>
            \<exists>w'. messages_try (device_messages_page n d' R E c) E r w = Some (Inr (PyList p), w')"
    and n: "2 \<le> n" and k: "frames_needed R \<le> k"
  shows "lens get put \<Longrightarrow> walk final R E c rq pages \<Longrightarrow> 3 * length pages + k \<le> d \<Longrightarrow>
         \<exists>w'. run get put n d R E c rq w = Some (Inr (PyList (concat pages)), w')"
proof (induction pages arbitrary: get put rq d w)
  case Nil
  then show ?case by simp
next
  case (Cons p ps)
  from Cons.prems(3) have d: "3 \<le> d" "k \<le> d - 3" "3 * length ps + k \<le> d - 3" by auto
  with k have g: "\<not> d - 3 < frames_needed R" by auto
  let ?page = "device_messages_page n (d - 3) R E c"
  have body: "\<exists>w'. fetch ?page (d - 3) R E rq w1 = Some (Inr (PyList (concat (p # ps))), w')" for w1
  proof (cases ps)
    case Nil
    let ?r = "backend E (log w1) rq"
    from Cons.prems(2) Nil obtain j where j: "status_code ?r \<noteq> 429" "loads E (body_text ?r) = Some j"
        "py_getitem j ''data'' = Inr (PyList p)" "final j"
      by auto
    from fin [OF j(4) j(2) j(3) d(2)] j(1) Nil g show ?thesis
      by (auto simp: fetch_def Let_def)
  next
    case ps: (Cons p' ps')
    let ?r = "backend E (log w1) rq"
    from Cons.prems(2) ps obtain j s' where j: "status_code ?r \<noteq> 429" "loads E (body_text ?r) = Some j"
        "py_getitem j ''data'' = Inr (PyList p)" "paging_next j = Inr (PyStr s')" "accepts R s'"
        "walk final R E c (get_request c s') ps"
      by (auto; blast)
    from Cons.IH [OF lens_page j(6) d(3)] obtain w' where
      "run limits_page (\<lambda>L w. w\<lparr>limits_page := L\<rparr>) n (d - 3) R E c (get_request c s') (snd (http E rq w1)) =
         Some (Inr (PyList (concat ps)), w')"
      by blast
    with j(5) have w': "?page (PyStr s') (snd (http E rq w1)) = Some (Inr (PyList (concat ps)), w')"
      by (simp add: page_is_run)
    have "messages_try ?page E ?r (snd (http E rq w1)) = Some (Inr (PyList (p @ concat ps)), w')"
      using j(2) j(3) j(4) w' by (rule messages_try_next [where page = "?page"])
    with j(1) g show ?thesis
      by (simp add: fetch_def Let_def)
  qed
  show ?case
    by (rule run_result [OF Cons.prems(1) n d(1)]) (use body in auto)
qed

text \<open>A chain that does not fit.\<close>

lemma run_walk_too_long:
  assumes fin: "\<And>j r w d' p. final j \<Longrightarrow> loads E (body_text r) = Some j \<Longrightarrow>
            py_getitem j ''data'' = Inr (PyList p) \<Longrightarrow> frames_needed R \<le> d' \<Longrightarrow> d' < k \<Longrightarrow>
            \<exists>w'. messages_try (device_messages_page n d' R E c) E r w = Some (Inl RecursionError, w')"
    and n: "2 \<le> n" and k: "frames_needed R \<le> k"
  shows "lens get put \<Longrightarrow> walk final R E c rq pages \<Longrightarrow> d < 3 * length pages + k \<Longrightarrow>
         \<exists>w'. run get put n d R E c rq w = Some (Inl RecursionError, w')"
proof (induction pages arbitrary: get put rq d w)
  case Nil
  then show ?case by simp
next
  case (Cons p ps)
  show ?case
  proof (cases "d < 3")
    case True
    then show ?thesis by (simp add: run_def)
  next
    case False
    then have d: "3 \<le> d" by simp
    let ?page = "device_messages_page n (d - 3) R E c"
    have body: "\<exists>w'. fetch ?page (d - 3) R E rq w1 = Some (Inl RecursionError, w')" for w1
    proof (cases "d - 3 < frames_needed R")
      case True
      then show ?thesis by (simp add: fetch_def)
    next
      case g: False
      let ?r = "backend E (log w1) rq"
      show ?thesis
      proof (cases ps)
        case Nil
        from Cons.prems(2) Nil obtain j where j: "status_code ?r \<noteq> 429" "loads E (body_text ?r) = Some j"
          "py_getitem j ''data'' = Inr (PyList p)" "final j"
          by auto
        from Cons.prems(3) Nil d have "d - 3 < k" by simp
        moreover from g have "frames_needed R \<le> d - 3" by simp
        ultimately obtain w' where
          "messages_try ?page E ?r (snd (http E rq w1)) = Some (Inl RecursionError, w')"
          using fin [OF j(4) j(2) j(3)] by blast
        with j(1) g show ?thesis by (simp add: fetch_def Let_def)
      next
        case ps: (Cons p' ps')
        from Cons.prems(2) ps obtain j s' where j: "status_code ?r \<noteq> 429" "loads E (body_text ?r) = Some j"
          "py_getitem j ''data'' = Inr (PyList p)" "paging_next j = Inr (PyStr s')" "accepts R s'"
          "walk final R E c (get_request c s') ps"
          by (auto; blast)
        from Cons.prems(3) d have "d - 3 < 3 * length ps + k" by simp
        from Cons.IH [OF lens_page j(6) this] obtain w' where
          "run limits_page (\<lambda>L w. w\<lparr>limits_page := L\<rparr>) n (d - 3) R E c (get_request c s') (snd (http E rq w1)) =
             Some (Inl RecursionError, w')"
          by blast
        with j(5) have "?page (PyStr s') (snd (http E rq w1)) = Some (Inl RecursionError, w')"
          by (simp add: page_is_run)
        from messages_try_next_recursion_error [where page = ?page, OF j(2) j(3) j(4) this]
        obtain w'' where "messages_try ?page E ?r (snd (http E rq w1)) = Some (Inl RecursionError, w'')"
          by blast
        with j(1) g show ?thesis by (simp add: fetch_def Let_def)
      qed
    qed
    show ?thesis
      by (rule run_result [OF Cons.prems(1) n d]) (use body in auto)
  qed
qed


subsection \<open>Chains of pages\<close>

lemma no_next_final:
  assumes "no_next j" "loads E (body_text r) = Some j" "py_getitem j ''data'' = Inr (PyList p)"
  shows "\<exists>w'. messages_try page E r w = Some (Inr (PyList p), w')"
  using assms by (auto simp: no_next_def messages_try_def except_KeyError_def)

text \<open>C1, as amended. When the backend serves a finite chain of pages from the first
  request of \<^verbatim>\<open>device_messages\<close> on, each cursor a URL that \<^verbatim>\<open>requests\<close> accepts and the last
  page without a \<^verbatim>\<open>paging.next\<close>, the call returns the concatenation of the pages' \<^verbatim>\<open>data\<close>
  arrays in page order if the chain fits the frames that the interpreter still allows
  (three for each page, and those of \<^verbatim>\<open>requests.get\<close>); if it does not fit, the call ends in
  \<^verbatim>\<open>RecursionError\<close>. The instances: two pages of 10 and 5 records give the 15 in order; one
  page with an empty \<^verbatim>\<open>data\<close> array and no \<^verbatim>\<open>paging.next\<close> gives the empty list.\<close>

theorem device_messages_concatenates:
  assumes "walk no_next R E c (first_request c device_id ps) pages" "2 \<le> n"
  shows "(3 * length pages + frames_needed R \<le> d \<longrightarrow>
            (\<exists>w'. device_messages n d R E c device_id ps w = Some (Inr (PyList (concat pages)), w'))) \<and>
         (d < 3 * length pages + frames_needed R \<longrightarrow>
            (\<exists>w'. device_messages n d R E c device_id ps w = Some (Inl RecursionError, w')))"
proof (intro conjI impI)
  assume "3 * length pages + frames_needed R \<le> d"
  with assms show "\<exists>w'. device_messages n d R E c device_id ps w = Some (Inr (PyList (concat pages)), w')"
    unfolding messages_is_run
    by (intro run_walk [where final = no_next and k = "frames_needed R"] lens_messages)
       (auto intro: no_next_final)
next
  assume "d < 3 * length pages + frames_needed R"
  with assms show "\<exists>w'. device_messages n d R E c device_id ps w = Some (Inl RecursionError, w')"
    unfolding messages_is_run
    by (intro run_walk_too_long [where final = no_next and k = "frames_needed R"] lens_messages) auto
qed

lemma two_pages_walk:
  "walk no_next demo_lib two_pages_env demo_client (first_request demo_client ''1A'' PyNone)
     [ten_records, five_records]"
  by (simp add: two_pages_env_def two_pages_def two_pages_loads_def first_request_def get_request_def
      demo_client_def no_next_def paging_next_def demo_lib_def)

lemma no_messages_walk:
  "walk no_next demo_lib no_messages_env demo_client (first_request demo_client ''1A'' PyNone) [[]]"
  by (simp add: no_messages_env_def no_messages_def no_messages_loads_def no_next_def paging_next_def)

theorem device_messages_concatenates_witness:
  "walk no_next demo_lib two_pages_env demo_client (first_request demo_client ''1A'' PyNone)
     [ten_records, five_records] \<and>
   fst (the (device_messages 2 998 demo_lib two_pages_env demo_client ''1A'' PyNone (fresh 0))) =
     Inr (PyList (ten_records @ five_records)) \<and>
   length (ten_records @ five_records) = 15 \<and>
   fst (the (device_messages 2 25 demo_lib two_pages_env demo_client ''1A'' PyNone (fresh 0))) =
     Inl RecursionError \<and>
   walk no_next demo_lib no_messages_env demo_client (first_request demo_client ''1A'' PyNone) [[]] \<and>
   fst (the (device_messages 2 998 demo_lib no_messages_env demo_client ''1A'' PyNone (fresh 0))) =
     Inr (PyList [])"
proof -
  have g: "frames_needed demo_lib = 20" by (simp add: demo_lib_def)
  from device_messages_concatenates [OF two_pages_walk, of 2 998 "fresh 0"]
  have "fst (the (device_messages 2 998 demo_lib two_pages_env demo_client ''1A'' PyNone (fresh 0))) =
          Inr (PyList (ten_records @ five_records))"
    by (auto simp: g)
  moreover have "length (ten_records @ five_records) = 15"
    by (simp add: ten_records_def five_records_def)
  moreover from device_messages_concatenates [OF two_pages_walk, of 2 25 "fresh 0"]
  have "fst (the (device_messages 2 25 demo_lib two_pages_env demo_client ''1A'' PyNone (fresh 0))) =
          Inl RecursionError"
    by (auto simp: g)
  moreover from device_messages_concatenates [OF no_messages_walk, of 2 998 "fresh 0"]
  have "fst (the (device_messages 2 998 demo_lib no_messages_env demo_client ''1A'' PyNone (fresh 0))) =
          Inr (PyList [])"
    by (auto simp: g)
  ultimately show ?thesis using two_pages_walk no_messages_walk by blast
qed

lemma page_url_length: "length (page_url i) - length (page_url 0) = i"
  by (simp add: page_url_def)

lemma long_loads_page:
  "long_loads N broken (page_url i) =
     (if i < N then
        Some (PyDict [(''data'', PyList [PyInt (int i)]),
                      (''paging'', if Suc i < N \<or> broken
                                   then PyDict [(''next'', PyStr (page_url (Suc i)))]
                                   else PyDict [])])
      else if i = N \<and> broken then Some (PyDict [(''message'', PyStr ''Internal error'')])
      else None)"
  unfolding long_loads_def page_url_length Let_def by simp

lemma accepts_page_url: "accepts demo_lib (page_url i)"
  by (simp add: demo_lib_def page_url_def)

lemma long_pages_step: "i < N \<Longrightarrow> long_pages i N = [PyInt (int i)] # long_pages (Suc i) N"
  by (simp add: long_pages_def upt_conv_Cons)

lemma long_pages_end: "long_pages N N = []"
  by (simp add: long_pages_def)

lemma long_walk:
  assumes final: "\<And>j. (if broken then next_lacks_data demo_lib (long_env N broken) c j else no_next j) = final j"
  shows "i < N \<Longrightarrow> url rq = page_url i \<Longrightarrow> walk final demo_lib (long_env N broken) c rq (long_pages i N)"
proof (induction "N - Suc i" arbitrary: i rq)
  case 0
  then have i: "Suc i = N" by simp
  then have pages: "long_pages i N = [[PyInt (int i)]]"
    using long_pages_step [of i N] long_pages_end [of N] by simp
  have "final (PyDict [(''data'', PyList [PyInt (int i)]),
                      (''paging'', if broken then PyDict [(''next'', PyStr (page_url N))] else PyDict [])])"
    unfolding final [symmetric]
    using i by (auto simp: no_next_def paging_next_def next_lacks_data_def lacks_data_def accepts_page_url
        long_env_def echo_def get_request_def long_loads_page)
  with i 0 show ?case
    by (auto simp: pages long_env_def echo_def long_loads_page)
next
  case (Suc k)
  then have i: "Suc i < N" by simp
  then have pages: "long_pages i N = [PyInt (int i)] # [PyInt (int (Suc i))] # long_pages (Suc (Suc i)) N"
    using long_pages_step [of i N] long_pages_step [of "Suc i" N] by simp
  have "walk final demo_lib (long_env N broken) c (get_request c (page_url (Suc i))) (long_pages (Suc i) N)"
    using Suc.hyps(2) i by (intro Suc.hyps(1)) (auto simp: get_request_def)
  then have "walk final demo_lib (long_env N broken) c (get_request c (page_url (Suc i)))
               ([PyInt (int (Suc i))] # long_pages (Suc (Suc i)) N)"
    using long_pages_step [of "Suc i" N] i by simp
  with i Suc.prems show ?case
    unfolding pages
    by (simp add: long_env_def echo_def long_loads_page paging_next_def accepts_page_url)
qed

lemma first_url_is_page_0: "url (first_request demo_client ''1A'' ps) = page_url 0"
  by (simp add: first_request_def demo_client_def page_url_def)

text \<open>C1 as stated fails: a chain of 400 pages, asked for with 998 frames to go (the
  interpreter's limit of 1000, from a caller two frames deep), ends in
  \<^verbatim>\<open>RecursionError\<close> and not in the 400 records.\<close>

theorem long_chain_counterexample:
  "walk no_next demo_lib (long_env 400 False) demo_client (first_request demo_client ''1A'' PyNone)
     (long_pages 0 400) \<and>
   length (long_pages 0 400) = 400 \<and>
   fst (the (device_messages 2 998 demo_lib (long_env 400 False) demo_client ''1A'' PyNone (fresh 0))) =
     Inl RecursionError"
proof -
  have w: "walk no_next demo_lib (long_env 400 False) demo_client
             (first_request demo_client ''1A'' PyNone) (long_pages 0 400)"
    by (rule long_walk) (simp_all add: first_url_is_page_0)
  have l: "length (long_pages 0 400) = 400" by (simp add: long_pages_def)
  have "\<exists>w'. run limits_messages (\<lambda>L w. w\<lparr>limits_messages := L\<rparr>) 2 998 demo_lib (long_env 400 False)
               demo_client (first_request demo_client ''1A'' PyNone) (fresh 0) = Some (Inl RecursionError, w')"
    using lens_messages w
    by (rule run_walk_too_long [where final = no_next and k = "frames_needed demo_lib", rotated 3])
       (simp_all add: l demo_lib_def)
  then have "fst (the (device_messages 2 998 demo_lib (long_env 400 False) demo_client ''1A'' PyNone
                    (fresh 0))) = Inl RecursionError"
    by (auto simp: messages_is_run)
  with w l show ?thesis by blast
qed



subsection \<open>A page without its records\<close>

lemma lacks_data_raises:
  assumes "lacks_data E (get_request c s)" "accepts R s" "2 \<le> n" "3 + frames_needed R \<le> d"
  shows "\<exists>w'. device_messages_page n d R E c (PyStr s) w = Some (Inl (KeyError ''data''), w')"
proof -
  from assms(4) have d: "3 \<le> d" "\<not> d - 3 < frames_needed R" by auto
  have "\<exists>w'. run limits_page (\<lambda>L w. w\<lparr>limits_page := L\<rparr>) n d R E c (get_request c s) w =
          Some (Inl (KeyError ''data''), w')"
  proof (rule run_result [OF lens_page assms(3) d(1)])
    show "\<exists>w'. fetch (device_messages_page n (d - 3) R E c) (d - 3) R E (get_request c s) w1 =
            Some (Inl (KeyError ''data''), w')" for w1
      using assms(1) d(2)
      by (auto simp: lacks_data_def fetch_def Let_def messages_try_def reraise_def
            dest!: spec [where x = "log w1"])
  qed simp
  with assms(2) show ?thesis by (simp add: page_is_run)
qed

lemma next_lacks_data_final:
  assumes "next_lacks_data R E c j" "loads E (body_text r) = Some j"
    "py_getitem j ''data'' = Inr (PyList p)" "2 \<le> n" "3 + frames_needed R \<le> d"
  shows "\<exists>w'. messages_try (device_messages_page n d R E c) E r w = Some (Inr (PyList p), w')"
proof -
  from assms(1) obtain s where s: "paging_next j = Inr (PyStr s)" "accepts R s"
      "lacks_data E (get_request c s)"
    by (auto simp: next_lacks_data_def)
  from lacks_data_raises [OF s(3) s(2) assms(4) assms(5)] obtain w' where
    "device_messages_page n d R E c (PyStr s) w = Some (Inl (KeyError ''data''), w')" by blast
  with assms(2,3) s(1) show ?thesis
    by (simp add: messages_try_def except_KeyError_def)
qed

lemma page_does_not_fit:
  assumes "accepts R s" "2 \<le> n" "d < 3 + frames_needed R"
  shows "\<exists>w'. device_messages_page n d R E c (PyStr s) w = Some (Inl RecursionError, w')"
proof (cases "d < 3")
  case True
  then show ?thesis by (subst device_messages_page.simps) simp
next
  case False
  then have d: "3 \<le> d" by simp
  with assms(3) have g: "d - 3 < frames_needed R" by simp
  have "\<exists>w'. run limits_page (\<lambda>L w. w\<lparr>limits_page := L\<rparr>) n d R E c (get_request c s) w =
          Some (Inl RecursionError, w')"
    by (rule run_result [OF lens_page assms(2) d]) (use g in \<open>simp_all add: fetch_def\<close>)
  with assms(1) show ?thesis by (simp add: page_is_run)
qed

lemma next_lacks_data_does_not_fit:
  assumes "next_lacks_data R E c j" "loads E (body_text r) = Some j"
    "py_getitem j ''data'' = Inr (PyList p)" "2 \<le> n" "d < 3 + frames_needed R"
  shows "\<exists>w'. messages_try (device_messages_page n d R E c) E r w = Some (Inl RecursionError, w')"
proof -
  from assms(1) obtain s where s: "paging_next j = Inr (PyStr s)" "accepts R s"
    by (auto simp: next_lacks_data_def)
  from page_does_not_fit [OF s(2) assms(4) assms(5)] obtain w' where
    "device_messages_page n d R E c (PyStr s) w = Some (Inl RecursionError, w')" by blast
  from messages_try_next_recursion_error [where page = "device_messages_page n d R E c",
      OF assms(2) assms(3) s(1) this]
  show ?thesis .
qed

text \<open>C9, as amended. A page whose answer is a JSON object without the key \<^verbatim>\<open>data\<close> makes
  \<^verbatim>\<open>device_messages_page\<close> fail with \<^verbatim>\<open>KeyError\<close> when it is asked for directly. When it is
  the page that the last of a chain of well-formed pages names as next, and the chain with
  that page fits the frames that the interpreter still allows (three for each page and for
  the page without \<^verbatim>\<open>data\<close>, and those of \<^verbatim>\<open>requests.get\<close>), the \<^verbatim>\<open>KeyError\<close> of the recursive
  call is caught by the \<^verbatim>\<open>except KeyError: pass\<close> written for a missing \<^verbatim>\<open>paging.next\<close>: both
  \<^verbatim>\<open>device_messages\<close> and \<^verbatim>\<open>device_messages_page\<close> return the records of the pages before it
  and no error. When it does not fit, both end in \<^verbatim>\<open>RecursionError\<close>.\<close>

theorem missing_data_truncates:
  assumes "2 \<le> n"
  shows "(lacks_data E (get_request c s) \<and> accepts R s \<and> 3 + frames_needed R \<le> d \<longrightarrow>
            (\<exists>w'. device_messages_page n d R E c (PyStr s) w = Some (Inl (KeyError ''data''), w'))) \<and>
         (walk (next_lacks_data R E c) R E c (first_request c device_id ps) pages \<and>
          3 * (length pages + 1) + frames_needed R \<le> d \<longrightarrow>
            (\<exists>w'. device_messages n d R E c device_id ps w = Some (Inr (PyList (concat pages)), w'))) \<and>
         (walk (next_lacks_data R E c) R E c (get_request c s) pages \<and> accepts R s \<and>
          3 * (length pages + 1) + frames_needed R \<le> d \<longrightarrow>
            (\<exists>w'. device_messages_page n d R E c (PyStr s) w = Some (Inr (PyList (concat pages)), w'))) \<and>
         (walk (next_lacks_data R E c) R E c (first_request c device_id ps) pages \<and>
          d < 3 * (length pages + 1) + frames_needed R \<longrightarrow>
            (\<exists>w'. device_messages n d R E c device_id ps w = Some (Inl RecursionError, w'))) \<and>
         (walk (next_lacks_data R E c) R E c (get_request c s) pages \<and> accepts R s \<and>
          d < 3 * (length pages + 1) + frames_needed R \<longrightarrow>
            (\<exists>w'. device_messages_page n d R E c (PyStr s) w = Some (Inl RecursionError, w')))"
proof -
  let ?k = "3 + frames_needed R"
  have fits: "\<exists>w'. run get put n d R E c rq w = Some (Inr (PyList (concat pages)), w')"
    if "lens get put" "walk (next_lacks_data R E c) R E c rq pages" "3 * length pages + ?k \<le> d"
    for get put rq
    using that
    by (rule run_walk [where final = "next_lacks_data R E c" and k = ?k, rotated 3])
       (use assms in \<open>auto intro: next_lacks_data_final\<close>)
  have too_long: "\<exists>w'. run get put n d R E c rq w = Some (Inl RecursionError, w')"
    if "lens get put" "walk (next_lacks_data R E c) R E c rq pages" "d < 3 * length pages + ?k"
    for get put rq
    using that
    by (rule run_walk_too_long [where final = "next_lacks_data R E c" and k = ?k, rotated 3])
       (use assms in \<open>auto intro: next_lacks_data_does_not_fit\<close>)
  show ?thesis
  proof (intro conjI impI; (elim conjE)?)
    assume "lacks_data E (get_request c s)" "accepts R s" "3 + frames_needed R \<le> d"
    with assms show "\<exists>w'. device_messages_page n d R E c (PyStr s) w = Some (Inl (KeyError ''data''), w')"
      by (intro lacks_data_raises)
  next
    assume "walk (next_lacks_data R E c) R E c (first_request c device_id ps) pages"
      "3 * (length pages + 1) + frames_needed R \<le> d"
    then show "\<exists>w'. device_messages n d R E c device_id ps w = Some (Inr (PyList (concat pages)), w')"
      unfolding messages_is_run by (intro fits lens_messages) auto
  next
    assume "walk (next_lacks_data R E c) R E c (get_request c s) pages" "accepts R s"
      "3 * (length pages + 1) + frames_needed R \<le> d"
    then show "\<exists>w'. device_messages_page n d R E c (PyStr s) w = Some (Inr (PyList (concat pages)), w')"
      by (simp only: page_is_run) (intro fits lens_page, auto)
  next
    assume "walk (next_lacks_data R E c) R E c (first_request c device_id ps) pages"
      "d < 3 * (length pages + 1) + frames_needed R"
    then show "\<exists>w'. device_messages n d R E c device_id ps w = Some (Inl RecursionError, w')"
      unfolding messages_is_run by (intro too_long lens_messages) auto
  next
    assume "walk (next_lacks_data R E c) R E c (get_request c s) pages" "accepts R s"
      "d < 3 * (length pages + 1) + frames_needed R"
    then show "\<exists>w'. device_messages_page n d R E c (PyStr s) w = Some (Inl RecursionError, w')"
      by (simp only: page_is_run) (intro too_long lens_page, auto)
  qed
qed

lemma truncated_walk:
  "walk (next_lacks_data demo_lib truncated_env demo_client) demo_lib truncated_env demo_client
     (first_request demo_client ''1A'' PyNone) [five_records]"
  by (simp add: truncated_env_def truncated_def truncated_loads_def first_request_def get_request_def
      demo_client_def next_lacks_data_def lacks_data_def paging_next_def demo_lib_def)

theorem missing_data_truncates_witness:
  "walk (next_lacks_data demo_lib truncated_env demo_client) demo_lib truncated_env demo_client
     (first_request demo_client ''1A'' PyNone) [five_records] \<and>
   lacks_data truncated_env (get_request demo_client ''https://api.sigfox.com/v2/devices/1A/messages?before=11'') \<and>
   accepts demo_lib ''https://api.sigfox.com/v2/devices/1A/messages?before=11'' \<and>
   fst (the (device_messages 2 998 demo_lib truncated_env demo_client ''1A'' PyNone (fresh 0))) =
     Inr (PyList five_records) \<and>
   fst (the (device_messages_page 2 998 demo_lib truncated_env demo_client
               (PyStr ''https://api.sigfox.com/v2/devices/1A/messages?before=11'') (fresh 0))) =
     Inl (KeyError ''data'') \<and>
   fst (the (device_messages 2 25 demo_lib truncated_env demo_client ''1A'' PyNone (fresh 0))) =
     Inl RecursionError"
proof -
  have l: "lacks_data truncated_env (get_request demo_client ''https://api.sigfox.com/v2/devices/1A/messages?before=11'')"
    by (simp add: lacks_data_def truncated_env_def truncated_def truncated_loads_def get_request_def)
  have a: "accepts demo_lib ''https://api.sigfox.com/v2/devices/1A/messages?before=11''"
    by (simp add: demo_lib_def)
  have g: "frames_needed demo_lib = 20" by (simp add: demo_lib_def)
  have n: "(2::nat) \<le> 2" by simp
  from missing_data_truncates [OF n, where R = demo_lib and E = truncated_env and c = demo_client
      and s = "''https://api.sigfox.com/v2/devices/1A/messages?before=11''" and w = "fresh 0"
      and device_id = "''1A''" and ps = PyNone and pages = "[five_records]" and d = 998]
    truncated_walk l a
  have "fst (the (device_messages 2 998 demo_lib truncated_env demo_client ''1A'' PyNone (fresh 0))) =
          Inr (PyList five_records) \<and>
        fst (the (device_messages_page 2 998 demo_lib truncated_env demo_client
               (PyStr ''https://api.sigfox.com/v2/devices/1A/messages?before=11'') (fresh 0))) =
          Inl (KeyError ''data'')"
    by (auto simp: g)
  moreover
  from missing_data_truncates [OF n, where R = demo_lib and E = truncated_env and c = demo_client
      and s = "''https://api.sigfox.com/v2/devices/1A/messages?before=11''" and w = "fresh 0"
      and device_id = "''1A''" and ps = PyNone and pages = "[five_records]" and d = 25]
    truncated_walk
  have "fst (the (device_messages 2 25 demo_lib truncated_env demo_client ''1A'' PyNone (fresh 0))) =
          Inl RecursionError"
    by (auto simp: g)
  ultimately show ?thesis using truncated_walk l a by blast
qed

text \<open>C9 as stated fails: a chain of 400 well-formed pages, the last of which names a page
  without \<^verbatim>\<open>data\<close>, asked for with 998 frames to go, ends in \<^verbatim>\<open>RecursionError\<close>: an error is
  signalled, and the records of the earlier pages are not returned.\<close>

theorem long_truncated_chain_counterexample:
  "walk (next_lacks_data demo_lib (long_env 400 True) demo_client) demo_lib (long_env 400 True) demo_client
     (first_request demo_client ''1A'' PyNone) (long_pages 0 400) \<and>
   length (long_pages 0 400) = 400 \<and>
   fst (the (device_messages 2 998 demo_lib (long_env 400 True) demo_client ''1A'' PyNone (fresh 0))) =
     Inl RecursionError"
proof -
  let ?final = "next_lacks_data demo_lib (long_env 400 True) demo_client"
  have w: "walk ?final demo_lib (long_env 400 True) demo_client
             (first_request demo_client ''1A'' PyNone) (long_pages 0 400)"
    by (rule long_walk) (simp_all add: first_url_is_page_0)
  have l: "length (long_pages 0 400) = 400" by (simp add: long_pages_def)
  have "\<exists>w'. run limits_messages (\<lambda>L w. w\<lparr>limits_messages := L\<rparr>) 2 998 demo_lib (long_env 400 True)
               demo_client (first_request demo_client ''1A'' PyNone) (fresh 0) = Some (Inl RecursionError, w')"
    using lens_messages w
    by (rule run_walk_too_long [where final = ?final and k = "3 + frames_needed demo_lib", rotated 3])
       (auto simp: l demo_lib_def intro: next_lacks_data_does_not_fit)
  then have "fst (the (device_messages 2 998 demo_lib (long_env 400 True) demo_client ''1A'' PyNone
                    (fresh 0))) = Inl RecursionError"
    by (auto simp: messages_is_run)
  with w l show ?thesis by blast
qed


subsection \<open>Rejections by the backend\<close>

lemma py_getitem_error: "py_getitem j k = Inl e \<Longrightarrow> e = KeyError k \<or> e = TypeError"
  by (cases j) (auto split: option.splits)

lemma py_iter_error: "py_iter x = Inl e \<Longrightarrow> e = TypeError"
  by (cases x) auto

lemma py_iadd_error: "py_iadd a b = Inl e \<Longrightarrow> e = TypeError"
  by (cases a; cases b) (auto split: sum.splits dest: py_iter_error)

lemma paging_next_error: "paging_next j = Inl e \<Longrightarrow> (\<exists>k. e = KeyError k) \<or> e = TypeError"
  by (auto simp: paging_next_def split: sum.splits dest: py_getitem_error)

lemma page_never_rate_limit:
  "device_messages_page n d R E c u w \<noteq> Some (Inl (RateLimitException m p), w')"
  by (subst device_messages_page.simps) (simp add: sleep_and_retry_never_rate_limit)

lemma messages_try_never_rate_limit:
  assumes "\<And>u v m p w'. page u v \<noteq> Some (Inl (RateLimitException m p), w')"
  shows "messages_try page E r w \<noteq> Some (Inl (RateLimitException m p), w')"
proof
  assume a: "messages_try page E r w = Some (Inl (RateLimitException m p), w')"
  show False
  proof (cases "loads E (body_text r)")
    case None
    with a show False by (simp add: messages_try_def reraise_def)
  next
    case (Some j)
    show False
    proof (cases "py_getitem j ''data''")
      case (Inl e)
      with a Some py_getitem_error [OF Inl] show False by (auto simp: messages_try_def reraise_def)
    next
      case (Inr out)
      show False
      proof (cases "paging_next j")
        case (Inl e)
        with a Some Inr paging_next_error [OF Inl] show False
          by (auto simp: messages_try_def except_KeyError_def reraise_def)
      next
        case nxt: (Inr nxt)
        show False
        proof (cases "page nxt w")
          case None
          with a Some Inr nxt show False by (simp add: messages_try_def)
        next
          case (Some res)
          obtain x v where res: "res = (x, v)" by (cases res)
          show False
          proof (cases x)
            case (Inl e)
            with assms [of nxt w _ _ v] Some res have "\<And>m p. e \<noteq> RateLimitException m p" by auto
            with a \<open>loads E (body_text r) = Some j\<close> Inr nxt Some res Inl show False
              by (auto simp: messages_try_def except_KeyError_def reraise_def split: py_error.splits)
          next
            case rest: (Inr rest)
            show False
            proof (cases "py_iadd out rest")
              case (Inl e)
              with a \<open>loads E (body_text r) = Some j\<close> Inr nxt Some res rest py_iadd_error [OF Inl]
              show False
                by (auto simp: messages_try_def except_KeyError_def reraise_def)
            next
              case (Inr out1)
              with a \<open>loads E (body_text r) = Some j\<close> \<open>py_getitem j ''data'' = Inr out\<close> nxt Some res rest
              show False by (auto simp: messages_try_def)
            qed
          qed
        qed
      qed
    qed
  qed
qed

lemma sleep_and_retry_returns:
  assumes "func w = res" "\<And>m p w'. res \<noteq> Some (Inl (RateLimitException m p), w')"
  shows "sleep_and_retry (Suc n) func w = res"
  using assms by (auto split: option.splits sum.splits py_error.splits prod.splits)

lemma limits_lets_through:
  assumes "num_calls (get w) = 0 \<or> last_reset (get w) + 5 \<le> clock w"
  shows "\<exists>L. limits 1 5 get put func w = func (put L w) \<and> num_calls L = 1 \<and>
             last_reset L = (if last_reset (get w) + 5 \<le> clock w then clock w else last_reset (get w))"
  using assms by (auto simp: limits_def Let_def)

lemma limits_refuses:
  assumes "1 \<le> num_calls (get w)" "clock w < last_reset (get w) + 5"
  shows "limits 1 5 get put func w =
           Some (Inl (RateLimitException ''too many calls'' (last_reset (get w) + 5 - clock w)),
                 put ((get w)\<lparr>num_calls := num_calls (get w) + 1\<rparr>) w)"
proof -
  have "5 - (clock w - last_reset (get w)) = last_reset (get w) + 5 - clock w" by simp
  with assms show ?thesis by (auto simp: limits_def Let_def)
qed


lemma run_retries:
  fixes get :: "world \<Rightarrow> rate_limit" and put
  assumes gp: "\<And>L w. get (put L w) = L" "\<And>L w. clock (put L w) = clock w"
      "\<And>L w. log (put L w) = log w"
      "\<And>L L' w. put L (put L' w) = put L w"
      "\<And>L s w. time_sleep s (put L w) = put L (time_sleep s w)"
      "\<And>L w. snd (http E rq (put L w)) = put L (snd (http E rq w))"
      "\<And>s w. get (time_sleep s w) = get w" "\<And>w. get (snd (http E rq w)) = get w"
    and r1: "status_code (backend E (log w) rq) = 429" "0 \<le> elapsed (backend E (log w) rq)"
    and r2: "status_code (backend E (log w @ [\<lparr>sent_at = let_through_at (get w) (clock w), req = rq\<rparr>]) rq) \<noteq> 429"
    and past: "last_reset (get w) \<le> clock w"
    and d: "3 + frames_needed R \<le> d" and n: "3 \<le> n"
  shows "run get put n d R E c rq w =
     (let t1 = let_through_at (get w) (clock w);
          r1 = backend E (log w) rq;
          x1 = \<lparr>sent_at = t1, req = rq\<rparr>;
          r2 = backend E (log w @ [x1]) rq;
          t2 = t1 + elapsed r1 + 5
      in messages_try (device_messages_page n (d - 3) R E c) E r2
           (put \<lparr>last_reset = t2, num_calls = 1\<rparr>
              (w\<lparr>clock := t2 + elapsed r2, log := log w @ [x1, \<lparr>sent_at = t2, req = rq\<rparr>]\<rparr>)))"
proof -
  define t1 where "t1 = let_through_at (get w) (clock w)"
  define e1 where "e1 = elapsed (backend E (log w) rq)"
  define x1 where "x1 = \<lparr>sent_at = t1, req = rq\<rparr>"
  define r2 where "r2 = backend E (log w @ [x1]) rq"
  define t2 where "t2 = t1 + e1 + 5"
  define page where "page = device_messages_page n (d - 3) R E c"
  define f where "f = fetch page (d - 3) R E rq"
  define F where "F = limits 1 5 get put f"
  define G where "G = (\<lambda>v. snd (http E rq (time_sleep 5 (snd (http E rq v)))))"
  define L3 where "L3 = \<lparr>last_reset = t2, num_calls = 1\<rparr>"
  from d have g: "\<not> d - 3 < frames_needed R" and d3: "\<not> d < 3" by auto
  from n obtain m where m: "n = Suc (Suc (Suc m))"
    by (cases n; cases "n - 1"; cases "n - 2") auto
  have G: "G v = w\<lparr>clock := t2 + elapsed r2, log := log w @ [x1, \<lparr>sent_at = t2, req = rq\<rparr>]\<rparr>"
    if "v = w\<lparr>clock := t1\<rparr>" for v
    using that by (simp add: G_def http_def time_sleep_def Let_def t2_def e1_def r2_def x1_def)
  have phase2: "sleep_and_retry (Suc (Suc k)) F v = messages_try page E r2 (put L3 (G v))"
    if v: "log v = log w" "clock v = t1" "num_calls (get v) = 0 \<or> last_reset (get v) + 5 \<le> clock v"
       "last_reset (get v) \<le> clock v" for v k
  proof -
    from limits_lets_through [where get = get and put = put and func = f and w = v] v(3) v(4) obtain L2 where
      L2: "F v = f (put L2 v)" "num_calls L2 = 1" "last_reset L2 \<le> clock v"
      unfolding F_def by (auto split: if_splits)
    let ?v1 = "snd (http E rq (put L2 v))"
    let ?v2 = "time_sleep 5 ?v1"
    let ?X = "time_sleep 5 (snd (http E rq v))"
    have "f (put L2 v) = Some (Inl (RateLimitException ''Exceeded Sigfox API rate limit'' 5), ?v1)"
      using g r1 v(1) by (simp add: f_def fetch_def gp(3) Let_def)
    with L2(1) have s1: "sleep_and_retry (Suc (Suc k)) F v = sleep_and_retry (Suc k) F ?v2"
      by simp
    have e: "?v2 = put L2 ?X" by (simp only: gp)
    have X: "clock ?X = t2" "log ?X = log w @ [x1]"
      using v(1,2) by (simp_all add: http_def time_sleep_def Let_def t2_def e1_def x1_def)
    have v2: "clock ?v2 = t2" "log ?v2 = log w @ [x1]" "get ?v2 = L2"
      unfolding e using X by (simp_all add: gp(1-3))
    have "num_calls (get ?v2) = 0 \<or> last_reset (get ?v2) + 5 \<le> clock ?v2"
      using L2(3) v(2) r1(2) unfolding v2 by (simp add: t2_def e1_def)
    with limits_lets_through [where get = get and put = put and func = f and w = ?v2] obtain L where
      L: "F ?v2 = f (put L ?v2)" "num_calls L = 1" "last_reset L = t2"
      unfolding F_def v2 using L2(3) v(2) r1(2) by (auto simp: t2_def e1_def split: if_splits)
    from L(2,3) have "L = L3" by (cases L) (simp add: L3_def)
    with L(1) have "F ?v2 = f (put L3 ?v2)" by simp
    moreover have "f (put L3 ?v2) = messages_try page E r2 (snd (http E rq (put L3 ?v2)))"
      using g r2 v2(2) by (simp add: f_def fetch_def gp(3) Let_def r2_def x1_def t1_def)
    moreover have "snd (http E rq (put L3 ?v2)) = put L3 (G v)"
      unfolding e G_def by (simp only: gp)
    ultimately have "F ?v2 = messages_try page E r2 (put L3 (G v))" by simp
    then have "sleep_and_retry (Suc k) F ?v2 = messages_try page E r2 (put L3 (G v))"
      by (rule sleep_and_retry_returns)
         (simp add: page_def messages_try_never_rate_limit [OF page_never_rate_limit])
    with s1 show ?thesis by simp
  qed
  have "sleep_and_retry n F w = messages_try page E r2
          (put L3 (w\<lparr>clock := t2 + elapsed r2, log := log w @ [x1, \<lparr>sent_at = t2, req = rq\<rparr>]\<rparr>))"
  proof (cases "num_calls (get w) = 0 \<or> last_reset (get w) + 5 \<le> clock w")
    case True
    then have t1: "t1 = clock w" by (simp add: t1_def let_through_at_def)
    from phase2 [of w "Suc m"] True past t1
    have "sleep_and_retry n F w = messages_try page E r2 (put L3 (G w))" by (simp add: m)
    moreover have "G w = w\<lparr>clock := t2 + elapsed r2, log := log w @ [x1, \<lparr>sent_at = t2, req = rq\<rparr>]\<rparr>"
      by (rule G) (simp add: t1)
    ultimately show ?thesis by simp
  next
    case False
    then have c: "1 \<le> num_calls (get w)" "clock w < last_reset (get w) + 5" by auto
    then have t1: "t1 = last_reset (get w) + 5" by (simp add: t1_def let_through_at_def)
    define L' where "L' = (get w)\<lparr>num_calls := num_calls (get w) + 1\<rparr>"
    define rem where "rem = last_reset (get w) + 5 - clock w"
    let ?v = "time_sleep rem (put L' w)"
    from limits_refuses [where get = get and put = put and func = f and w = w] c
    have "F w = Some (Inl (RateLimitException ''too many calls'' rem), put L' w)"
      by (simp add: F_def L'_def rem_def)
    then have s0: "sleep_and_retry n F w = sleep_and_retry (Suc (Suc m)) F ?v"
      by (simp add: m)
    have e: "?v = put L' (time_sleep rem w)" by (simp only: gp)
    have v: "log ?v = log w" "clock ?v = t1" "get ?v = L'"
      unfolding e by (simp_all add: gp(1-3)) (simp_all add: time_sleep_def rem_def t1)
    have "sleep_and_retry (Suc (Suc m)) F ?v = messages_try page E r2 (put L3 (G ?v))"
      by (rule phase2) (simp_all add: v, simp_all add: L'_def t1)
    moreover have "G ?v = put L' (G (time_sleep rem w))"
      unfolding e G_def by (simp only: gp)
    moreover have "G (time_sleep rem w) =
        w\<lparr>clock := t2 + elapsed r2, log := log w @ [x1, \<lparr>sent_at = t2, req = rq\<rparr>]\<rparr>"
      by (rule G) (simp add: time_sleep_def rem_def t1)
    ultimately show ?thesis using s0 by (simp add: gp(4))
  qed
  with d3 show ?thesis
    by (simp add: run_def F_def f_def page_def Let_def L3_def t2_def r2_def x1_def t1_def e1_def)
qed


lemma no_next_returns:
  "loads E (body_text r) = Some j \<Longrightarrow> py_getitem j ''data'' = Inr recs \<Longrightarrow> no_next j \<Longrightarrow>
   messages_try page E r w = Some (Inr recs, w)"
  by (auto simp: messages_try_def no_next_def except_KeyError_def)

lemma always_429_for_ever:
  assumes "\<forall>h. status_code (backend E h rq) = 429" "3 + frames_needed R \<le> d"
  shows "run get put n d R E c rq w = None"
proof -
  from assms(2) have d: "\<not> d < 3" "\<not> d - 3 < frames_needed R" by auto
  let ?f = "fetch (device_messages_page n (d - 3) R E c) (d - 3) R E rq"
  have "\<exists>m p w'. limits 1 5 get put ?f v = Some (Inl (RateLimitException m p), w')" for v
    using limits_refuses_or_runs [of 1 5 get put ?f v] assms(1) d(2)
    by (auto simp: fetch_def Let_def)
  then have "sleep_and_retry n (limits 1 5 get put ?f) w = None"
    by (rule sleep_and_retry_for_ever)
  with d(1) show ?thesis by (simp add: run_def)
qed

text \<open>C2, as amended. When the backend answers 429, the function body raises
  \<^verbatim>\<open>RateLimitException('Exceeded Sigfox API rate limit', 5)\<close>; the \<^verbatim>\<open>sleep_and_retry\<close> decorator
  catches it, so no call of \<^verbatim>\<open>device_messages\<close> or \<^verbatim>\<open>device_messages_page\<close> ever fails to its
  caller with that exception, and the call does not return, whatever the fuel, while the
  backend keeps answering 429. When the first answer is a 429 and the answer to the same
  request made again is not, the call sleeps 5 seconds after the rejection came in, makes
  the request again, and ends as the function body ends on the second answer: the first
  request went out at \<open>t1\<close>, when the decorator let the call through, the second at
  \<open>t1 + elapsed r1 + 5\<close>, and nothing else has changed in the process but the clock, the log
  and the function's decorator object. In particular, when the second answer is a page of
  records without \<^verbatim>\<open>paging.next\<close>, the call returns these records. (The conditions: the
  exchange took no negative time, the decorator was last reset in the past, the call has
  the frames for its three and for \<^verbatim>\<open>requests.get\<close>, and the URL of \<^verbatim>\<open>device_messages_page\<close> is
  one that \<^verbatim>\<open>requests\<close> accepts.)\<close>

theorem rate_limit_rejection_is_retried:
  "(status_code (backend E (log w) (first_request c device_id ps)) = 429 \<and> frames_needed R \<le> d \<longrightarrow>
      device_messages_body page d R E c device_id ps w =
        Some (Inl (RateLimitException ''Exceeded Sigfox API rate limit'' 5),
              snd (http E (first_request c device_id ps) w))) \<and>
   (status_code (backend E (log w) (get_request c s)) = 429 \<and> accepts R s \<and> frames_needed R \<le> d \<longrightarrow>
      device_messages_page_body page d R E c (PyStr s) w =
        Some (Inl (RateLimitException ''Exceeded Sigfox API rate limit'' 5),
              snd (http E (get_request c s) w))) \<and>
   device_messages n d R E c device_id ps w \<noteq> Some (Inl (RateLimitException m p), w') \<and>
   device_messages_page n d R E c u w \<noteq> Some (Inl (RateLimitException m p), w') \<and>
   ((\<forall>h. status_code (backend E h (first_request c device_id ps)) = 429) \<and> 3 + frames_needed R \<le> d \<longrightarrow>
      device_messages n d R E c device_id ps w = None) \<and>
   ((\<forall>h. status_code (backend E h (get_request c s)) = 429) \<and> accepts R s \<and> 3 + frames_needed R \<le> d \<longrightarrow>
      device_messages_page n d R E c (PyStr s) w = None) \<and>
   (let rq = first_request c device_id ps;
        t1 = let_through_at (limits_messages w) (clock w);
        r1 = backend E (log w) rq;
        x1 = \<lparr>sent_at = t1, req = rq\<rparr>;
        r2 = backend E (log w @ [x1]) rq;
        t2 = t1 + elapsed r1 + 5;
        w2 = w\<lparr>clock := t2 + elapsed r2, log := log w @ [x1, \<lparr>sent_at = t2, req = rq\<rparr>],
               limits_messages := \<lparr>last_reset = t2, num_calls = 1\<rparr>\<rparr>
    in status_code r1 = 429 \<and> 0 \<le> elapsed r1 \<and> status_code r2 \<noteq> 429 \<and>
       last_reset (limits_messages w) \<le> clock w \<and> 3 + frames_needed R \<le> d \<and> 3 \<le> n \<longrightarrow>
         device_messages n d R E c device_id ps w =
           messages_try (device_messages_page n (d - 3) R E c) E r2 w2 \<and>
         (\<forall>j recs. loads E (body_text r2) = Some j \<and> py_getitem j ''data'' = Inr recs \<and> no_next j \<longrightarrow>
            device_messages n d R E c device_id ps w = Some (Inr recs, w2))) \<and>
   (let rq = get_request c s;
        t1 = let_through_at (limits_page w) (clock w);
        r1 = backend E (log w) rq;
        x1 = \<lparr>sent_at = t1, req = rq\<rparr>;
        r2 = backend E (log w @ [x1]) rq;
        t2 = t1 + elapsed r1 + 5;
        w2 = w\<lparr>clock := t2 + elapsed r2, log := log w @ [x1, \<lparr>sent_at = t2, req = rq\<rparr>],
               limits_page := \<lparr>last_reset = t2, num_calls = 1\<rparr>\<rparr>
    in status_code r1 = 429 \<and> 0 \<le> elapsed r1 \<and> status_code r2 \<noteq> 429 \<and> accepts R s \<and>
       last_reset (limits_page w) \<le> clock w \<and> 3 + frames_needed R \<le> d \<and> 3 \<le> n \<longrightarrow>
         device_messages_page n d R E c (PyStr s) w =
           messages_try (device_messages_page n (d - 3) R E c) E r2 w2 \<and>
         (\<forall>j recs. loads E (body_text r2) = Some j \<and> py_getitem j ''data'' = Inr recs \<and> no_next j \<longrightarrow>
            device_messages_page n d R E c (PyStr s) w = Some (Inr recs, w2)))"
proof -
  have c1: "status_code (backend E (log w) (first_request c device_id ps)) = 429 \<and> frames_needed R \<le> d \<longrightarrow>
      device_messages_body page d R E c device_id ps w =
        Some (Inl (RateLimitException ''Exceeded Sigfox API rate limit'' 5),
              snd (http E (first_request c device_id ps) w))"
    by (simp add: device_messages_body_def first_request_def http_def Let_def)
  have c2: "status_code (backend E (log w) (get_request c s)) = 429 \<and> accepts R s \<and> frames_needed R \<le> d \<longrightarrow>
      device_messages_page_body page d R E c (PyStr s) w =
        Some (Inl (RateLimitException ''Exceeded Sigfox API rate limit'' 5),
              snd (http E (get_request c s) w))"
    by (simp add: device_messages_page_body_def get_request_def http_def Let_def)
  have c3: "device_messages n d R E c device_id ps w \<noteq> Some (Inl (RateLimitException m p), w')"
    by (simp add: device_messages_def sleep_and_retry_never_rate_limit)
  have c4: "device_messages_page n d R E c u w \<noteq> Some (Inl (RateLimitException m p), w')"
    by (rule page_never_rate_limit)
  have c5: "(\<forall>h. status_code (backend E h (first_request c device_id ps)) = 429) \<and> 3 + frames_needed R \<le> d \<longrightarrow>
      device_messages n d R E c device_id ps w = None"
    by (simp add: messages_is_run always_429_for_ever)
  have c6: "(\<forall>h. status_code (backend E h (get_request c s)) = 429) \<and> accepts R s \<and> 3 + frames_needed R \<le> d \<longrightarrow>
      device_messages_page n d R E c (PyStr s) w = None"
    by (simp add: page_is_run always_429_for_ever)
  have c7: "let rq = first_request c device_id ps;
        t1 = let_through_at (limits_messages w) (clock w);
        r1 = backend E (log w) rq;
        x1 = \<lparr>sent_at = t1, req = rq\<rparr>;
        r2 = backend E (log w @ [x1]) rq;
        t2 = t1 + elapsed r1 + 5;
        w2 = w\<lparr>clock := t2 + elapsed r2, log := log w @ [x1, \<lparr>sent_at = t2, req = rq\<rparr>],
               limits_messages := \<lparr>last_reset = t2, num_calls = 1\<rparr>\<rparr>
    in status_code r1 = 429 \<and> 0 \<le> elapsed r1 \<and> status_code r2 \<noteq> 429 \<and>
       last_reset (limits_messages w) \<le> clock w \<and> 3 + frames_needed R \<le> d \<and> 3 \<le> n \<longrightarrow>
         device_messages n d R E c device_id ps w =
           messages_try (device_messages_page n (d - 3) R E c) E r2 w2 \<and>
         (\<forall>j recs. loads E (body_text r2) = Some j \<and> py_getitem j ''data'' = Inr recs \<and> no_next j \<longrightarrow>
            device_messages n d R E c device_id ps w = Some (Inr recs, w2))"
  proof -
    let ?rq = "first_request c device_id ps"
    have "run limits_messages (\<lambda>L w. w\<lparr>limits_messages := L\<rparr>) n d R E c ?rq w =
          (let t1 = let_through_at (limits_messages w) (clock w);
               r1 = backend E (log w) ?rq;
               x1 = \<lparr>sent_at = t1, req = ?rq\<rparr>;
               r2 = backend E (log w @ [x1]) ?rq;
               t2 = t1 + elapsed r1 + 5
           in messages_try (device_messages_page n (d - 3) R E c) E r2
                ((w\<lparr>clock := t2 + elapsed r2, log := log w @ [x1, \<lparr>sent_at = t2, req = ?rq\<rparr>]\<rparr>)
                   \<lparr>limits_messages := \<lparr>last_reset = t2, num_calls = 1\<rparr>\<rparr>))"
      if "status_code (backend E (log w) ?rq) = 429" "0 \<le> elapsed (backend E (log w) ?rq)"
        "status_code (backend E (log w @ [\<lparr>sent_at = let_through_at (limits_messages w) (clock w), req = ?rq\<rparr>]) ?rq) \<noteq> 429"
        "last_reset (limits_messages w) \<le> clock w" "3 + frames_needed R \<le> d" "3 \<le> n"
      using that
      by (intro run_retries [where get = limits_messages and put = "\<lambda>L w. w\<lparr>limits_messages := L\<rparr>"])
         (simp_all add: time_sleep_def http_def Let_def)
    then show ?thesis
      by (auto simp: Let_def messages_is_run no_next_returns)
  qed
  have c8: "let rq = get_request c s;
        t1 = let_through_at (limits_page w) (clock w);
        r1 = backend E (log w) rq;
        x1 = \<lparr>sent_at = t1, req = rq\<rparr>;
        r2 = backend E (log w @ [x1]) rq;
        t2 = t1 + elapsed r1 + 5;
        w2 = w\<lparr>clock := t2 + elapsed r2, log := log w @ [x1, \<lparr>sent_at = t2, req = rq\<rparr>],
               limits_page := \<lparr>last_reset = t2, num_calls = 1\<rparr>\<rparr>
    in status_code r1 = 429 \<and> 0 \<le> elapsed r1 \<and> status_code r2 \<noteq> 429 \<and> accepts R s \<and>
       last_reset (limits_page w) \<le> clock w \<and> 3 + frames_needed R \<le> d \<and> 3 \<le> n \<longrightarrow>
         device_messages_page n d R E c (PyStr s) w =
           messages_try (device_messages_page n (d - 3) R E c) E r2 w2 \<and>
         (\<forall>j recs. loads E (body_text r2) = Some j \<and> py_getitem j ''data'' = Inr recs \<and> no_next j \<longrightarrow>
            device_messages_page n d R E c (PyStr s) w = Some (Inr recs, w2))"
  proof -
    let ?rq = "get_request c s"
    have "run limits_page (\<lambda>L w. w\<lparr>limits_page := L\<rparr>) n d R E c ?rq w =
          (let t1 = let_through_at (limits_page w) (clock w);
               r1 = backend E (log w) ?rq;
               x1 = \<lparr>sent_at = t1, req = ?rq\<rparr>;
               r2 = backend E (log w @ [x1]) ?rq;
               t2 = t1 + elapsed r1 + 5
           in messages_try (device_messages_page n (d - 3) R E c) E r2
                ((w\<lparr>clock := t2 + elapsed r2, log := log w @ [x1, \<lparr>sent_at = t2, req = ?rq\<rparr>]\<rparr>)
                   \<lparr>limits_page := \<lparr>last_reset = t2, num_calls = 1\<rparr>\<rparr>))"
      if "status_code (backend E (log w) ?rq) = 429" "0 \<le> elapsed (backend E (log w) ?rq)"
        "status_code (backend E (log w @ [\<lparr>sent_at = let_through_at (limits_page w) (clock w), req = ?rq\<rparr>]) ?rq) \<noteq> 429"
        "last_reset (limits_page w) \<le> clock w" "3 + frames_needed R \<le> d" "3 \<le> n"
      using that
      by (intro run_retries [where get = limits_page and put = "\<lambda>L w. w\<lparr>limits_page := L\<rparr>"])
         (simp_all add: time_sleep_def http_def Let_def)
    then show ?thesis
      by (auto simp: Let_def page_is_run no_next_returns)
  qed
  from c1 c2 c3 c4 c5 c6 c7 c8 show ?thesis by (intro conjI)
qed


theorem rate_limit_rejection_is_retried_witness:
  "status_code (backend throttled_once_env (log (fresh 0)) (first_request demo_client ''1A'' PyNone)) = 429 \<and>
   status_code (backend throttled_once_env
      (log (fresh 0) @ [\<lparr>sent_at = 0, req = first_request demo_client ''1A'' PyNone\<rparr>])
      (first_request demo_client ''1A'' PyNone)) = 200 \<and>
   device_messages 3 998 demo_lib throttled_once_env demo_client ''1A'' PyNone (fresh 0) =
     Some (Inr (PyList five_records),
           (fresh 0)\<lparr>clock := 52 / 10,
                     log := [\<lparr>sent_at = 0, req = first_request demo_client ''1A'' PyNone\<rparr>,
                             \<lparr>sent_at = 51 / 10, req = first_request demo_client ''1A'' PyNone\<rparr>],
                     limits_messages := \<lparr>last_reset = 51 / 10, num_calls = 1\<rparr>\<rparr>) \<and>
   device_messages_page 3 998 demo_lib throttled_once_env demo_client
       (PyStr ''https://api.sigfox.com/v2/devices/1A/messages?before=11'') (fresh 0) =
     Some (Inr (PyList five_records),
           (fresh 0)\<lparr>clock := 52 / 10,
                     log := [\<lparr>sent_at = 0, req = get_request demo_client ''https://api.sigfox.com/v2/devices/1A/messages?before=11''\<rparr>,
                             \<lparr>sent_at = 51 / 10, req = get_request demo_client ''https://api.sigfox.com/v2/devices/1A/messages?before=11''\<rparr>],
                     limits_page := \<lparr>last_reset = 51 / 10, num_calls = 1\<rparr>\<rparr>) \<and>
   device_messages_body (device_messages_page 7 995 demo_lib always_throttled_env demo_client) 995 demo_lib
       always_throttled_env demo_client ''1A'' PyNone (fresh 0) =
     Some (Inl (RateLimitException ''Exceeded Sigfox API rate limit'' 5),
           snd (http always_throttled_env (first_request demo_client ''1A'' PyNone) (fresh 0))) \<and>
   device_messages 7 998 demo_lib always_throttled_env demo_client ''1A'' PyNone (fresh 0) = None \<and>
   device_messages_page 7 998 demo_lib always_throttled_env demo_client
       (PyStr ''https://api.sigfox.com/v2/devices/1A/messages?before=11'') (fresh 0) = None"
proof -
  let ?s = "''https://api.sigfox.com/v2/devices/1A/messages?before=11''"
  have g: "frames_needed demo_lib = 20" "accepts demo_lib ?s" by (simp_all add: demo_lib_def)
  have j: "loads throttled_once_env ''one page'' = Some (PyDict [(''data'', PyList five_records)])"
    "no_next (PyDict [(''data'', PyList five_records)])"
    by (simp_all add: throttled_once_env_def throttled_once_loads_def no_next_def paging_next_def)
  have a: "status_code (backend throttled_once_env (log (fresh 0)) (first_request demo_client ''1A'' PyNone)) = 429"
    "status_code (backend throttled_once_env
      (log (fresh 0) @ [\<lparr>sent_at = 0, req = first_request demo_client ''1A'' PyNone\<rparr>])
      (first_request demo_client ''1A'' PyNone)) = 200"
    by (simp_all add: throttled_once_env_def throttled_once_def fresh_def)
  from rate_limit_rejection_is_retried [where E = throttled_once_env and w = "fresh 0" and c = demo_client
      and device_id = "''1A''" and ps = PyNone and n = 3 and d = 998 and R = demo_lib and s = ?s
      and page = "\<lambda>u w. None" and m = "[]" and p = 0 and w' = "fresh 0" and u = PyNone]
  have b: "device_messages 3 998 demo_lib throttled_once_env demo_client ''1A'' PyNone (fresh 0) =
     Some (Inr (PyList five_records),
           (fresh 0)\<lparr>clock := 52 / 10,
                     log := [\<lparr>sent_at = 0, req = first_request demo_client ''1A'' PyNone\<rparr>,
                             \<lparr>sent_at = 51 / 10, req = first_request demo_client ''1A'' PyNone\<rparr>],
                     limits_messages := \<lparr>last_reset = 51 / 10, num_calls = 1\<rparr>\<rparr>)"
   "device_messages_page 3 998 demo_lib throttled_once_env demo_client (PyStr ?s) (fresh 0) =
     Some (Inr (PyList five_records),
           (fresh 0)\<lparr>clock := 52 / 10,
                     log := [\<lparr>sent_at = 0, req = get_request demo_client ?s\<rparr>,
                             \<lparr>sent_at = 51 / 10, req = get_request demo_client ?s\<rparr>],
                     limits_page := \<lparr>last_reset = 51 / 10, num_calls = 1\<rparr>\<rparr>)"
    using g j
    by (simp_all add: Let_def throttled_once_env_def throttled_once_def fresh_def let_through_at_def
        throttled_once_loads_def messages_try_def paging_next_def except_KeyError_def)
  from rate_limit_rejection_is_retried [where E = always_throttled_env and w = "fresh 0" and c = demo_client
      and device_id = "''1A''" and ps = PyNone and n = 7 and d = 998 and R = demo_lib and s = ?s
      and page = "\<lambda>u w. None" and m = "[]" and p = 0 and w' = "fresh 0" and u = PyNone]
  have c: "device_messages 7 998 demo_lib always_throttled_env demo_client ''1A'' PyNone (fresh 0) = None"
    "device_messages_page 7 998 demo_lib always_throttled_env demo_client (PyStr ?s) (fresh 0) = None"
    using g by (simp_all add: always_throttled_env_def always_throttled_def)
  from rate_limit_rejection_is_retried [where E = always_throttled_env and w = "fresh 0" and c = demo_client
      and device_id = "''1A''" and ps = PyNone and d = 995 and R = demo_lib
      and page = "device_messages_page 7 995 demo_lib always_throttled_env demo_client"
      and n = 7 and s = ?s and m = "[]" and p = 0 and w' = "fresh 0" and u = PyNone]
  have d: "device_messages_body (device_messages_page 7 995 demo_lib always_throttled_env demo_client) 995 demo_lib
       always_throttled_env demo_client ''1A'' PyNone (fresh 0) =
     Some (Inl (RateLimitException ''Exceeded Sigfox API rate limit'' 5),
           snd (http always_throttled_env (first_request demo_client ''1A'' PyNone) (fresh 0)))"
    using g by (simp add: always_throttled_env_def always_throttled_def)
  from a b c d show ?thesis by (intro conjI)
qed

text \<open>C2 as stated fails: the backend answers the first request with 429 and the next
  with a page of five records. The call does not fail: it returns the five records, from a
  second request that it issued 5 seconds after the rejection came in.\<close>

theorem rate_limit_surfaced_counterexample:
  "status_code (backend throttled_once_env (log (fresh 0)) (first_request demo_client ''1A'' PyNone)) = 429 \<and>
   fst (the (device_messages 2 998 demo_lib throttled_once_env demo_client ''1A'' PyNone (fresh 0))) =
     Inr (PyList five_records) \<and>
   map sent_at (log (snd (the (device_messages 2 998 demo_lib throttled_once_env demo_client ''1A'' PyNone
     (fresh 0))))) = [0, 51 / 10]"
  by (simp add: numeral_2_eq_2 device_messages_def limits_def device_messages_body_def http_def Let_def
      throttled_once_env_def throttled_once_def throttled_once_loads_def demo_client_def fresh_def time_sleep_def
      messages_try_def paging_next_def except_KeyError_def first_request_def demo_lib_def)


subsection \<open>Answers that are not JSON\<close>

lemma messages_try_not_json:
  "loads E (body_text r) = None \<Longrightarrow>
   messages_try page E r w = Some (Inl (JSONDecodeError (body_text r)), print (PPrint (PyStr (body_text r))) w)"
  by (simp add: messages_try_def reraise_def)

lemma run_not_json:
  assumes "lens get put" "2 \<le> n" "3 + frames_needed R \<le> d"
    "status_code (backend E (log w) rq) \<noteq> 429" "loads E (body_text (backend E (log w) rq)) = None"
  shows "\<exists>w'. run get put n d R E c rq w = Some (Inl (JSONDecodeError (body_text (backend E (log w) rq))), w')"
proof -
  from assms(3) have d: "3 \<le> d" "\<not> d - 3 < frames_needed R" by auto
  show ?thesis
  proof (rule run_result [OF assms(1) assms(2) d(1)])
    show "\<exists>w'. fetch (device_messages_page n (d - 3) R E c) (d - 3) R E rq w1 =
            Some (Inl (JSONDecodeError (body_text (backend E (log w) rq))), w')"
      if "log w1 = log w" for w1
      using that assms(4,5) d(2) by (simp add: fetch_def Let_def messages_try_not_json)
  qed simp
qed

text \<open>C4, as amended. A response whose body is not JSON makes \<^verbatim>\<open>device_info\<close>,
  \<^verbatim>\<open>groups_list\<close> and \<^verbatim>\<open>device_list\<close> fail with the parser's \<^verbatim>\<open>JSONDecodeError\<close>, which carries
  the body text; \<^verbatim>\<open>device_messages\<close> and \<^verbatim>\<open>device_messages_page\<close> do the same when the status
  is not 429 (the status is looked at first), the call has the frames for its three and for
  \<^verbatim>\<open>requests.get\<close>, and the URL given to \<^verbatim>\<open>device_messages_page\<close> is one that \<^verbatim>\<open>requests\<close> accepts
  (so that there is a response).\<close>

theorem not_json_raises_decode_error:
  "(let r = backend E (log w) (get_request c (api_url c @ ''devices/'' @ device_id))
    in loads E (body_text r) = None \<longrightarrow>
       fst (device_info E c device_id w) = Inl (JSONDecodeError (body_text r))) \<and>
   (let r = backend E (log w) (get_request c (api_url c @ ''groups''))
    in loads E (body_text r) = None \<longrightarrow>
       fst (groups_list E c w) = Inl (JSONDecodeError (body_text r))) \<and>
   (let r = backend E (log w) ((get_request c (api_url c @ ''devices''))\<lparr>params := PyDict [(''deviceTypeId'', t)]\<rparr>)
    in py_getitem device_type ''id'' = Inr t \<and> loads E (body_text r) = None \<longrightarrow>
       fst (device_list E c device_type w) = Inl (JSONDecodeError (body_text r))) \<and>
   (let r = backend E (log w) (first_request c device_id ps)
    in status_code r \<noteq> 429 \<and> loads E (body_text r) = None \<and> 2 \<le> n \<and> 3 + frames_needed R \<le> d \<longrightarrow>
       (\<exists>w'. device_messages n d R E c device_id ps w = Some (Inl (JSONDecodeError (body_text r)), w'))) \<and>
   (let r = backend E (log w) (get_request c s)
    in status_code r \<noteq> 429 \<and> loads E (body_text r) = None \<and> 2 \<le> n \<and> accepts R s \<and>
       3 + frames_needed R \<le> d \<longrightarrow>
       (\<exists>w'. device_messages_page n d R E c (PyStr s) w = Some (Inl (JSONDecodeError (body_text r)), w')))"
proof (intro conjI)
  show "let r = backend E (log w) (get_request c (api_url c @ ''devices/'' @ device_id))
    in loads E (body_text r) = None \<longrightarrow>
       fst (device_info E c device_id w) = Inl (JSONDecodeError (body_text r))"
    by (simp add: device_info_def get_request_def Let_def split_beta http_fst print_log)
  show "let r = backend E (log w) (get_request c (api_url c @ ''groups''))
    in loads E (body_text r) = None \<longrightarrow>
       fst (groups_list E c w) = Inl (JSONDecodeError (body_text r))"
    by (simp add: groups_list_def get_request_def Let_def split_beta http_fst print_log)
  show "let r = backend E (log w) ((get_request c (api_url c @ ''devices''))\<lparr>params := PyDict [(''deviceTypeId'', t)]\<rparr>)
    in py_getitem device_type ''id'' = Inr t \<and> loads E (body_text r) = None \<longrightarrow>
       fst (device_list E c device_type w) = Inl (JSONDecodeError (body_text r))"
    by (simp add: device_list_def device_list_failed_def get_request_def Let_def split_beta http_fst)
  show "let r = backend E (log w) (first_request c device_id ps)
    in status_code r \<noteq> 429 \<and> loads E (body_text r) = None \<and> 2 \<le> n \<and> 3 + frames_needed R \<le> d \<longrightarrow>
       (\<exists>w'. device_messages n d R E c device_id ps w = Some (Inl (JSONDecodeError (body_text r)), w'))"
    unfolding Let_def messages_is_run by (intro impI run_not_json lens_messages) simp_all
  show "let r = backend E (log w) (get_request c s)
    in status_code r \<noteq> 429 \<and> loads E (body_text r) = None \<and> 2 \<le> n \<and> accepts R s \<and>
       3 + frames_needed R \<le> d \<longrightarrow>
       (\<exists>w'. device_messages_page n d R E c (PyStr s) w = Some (Inl (JSONDecodeError (body_text r)), w'))"
  proof -
    have "\<exists>w'. device_messages_page n d R E c (PyStr s) w =
            Some (Inl (JSONDecodeError (body_text (backend E (log w) (get_request c s)))), w')"
      if "status_code (backend E (log w) (get_request c s)) \<noteq> 429"
         "loads E (body_text (backend E (log w) (get_request c s))) = None" "2 \<le> n" "accepts R s"
         "3 + frames_needed R \<le> d"
      unfolding page_is_run [OF that(4)] using that by (intro run_not_json lens_page)
    then show ?thesis by (simp add: Let_def)
  qed
qed

theorem not_json_raises_decode_error_witness:
  "loads not_json_env ''<html>Bad Gateway</html>'' = None \<and>
   py_getitem demo_devicetype ''id'' = Inr (PyStr ''5d01'') \<and>
   accepts demo_lib ''https://api.sigfox.com/v2/devices/1A/messages'' \<and>
   fst (device_info not_json_env demo_client ''1A'' (fresh 0)) = Inl (JSONDecodeError ''<html>Bad Gateway</html>'') \<and>
   fst (groups_list not_json_env demo_client (fresh 0)) = Inl (JSONDecodeError ''<html>Bad Gateway</html>'') \<and>
   fst (device_list not_json_env demo_client demo_devicetype (fresh 0)) = Inl (JSONDecodeError ''<html>Bad Gateway</html>'') \<and>
   fst (the (device_messages 2 998 demo_lib not_json_env demo_client ''1A'' PyNone (fresh 0))) =
      Inl (JSONDecodeError ''<html>Bad Gateway</html>'') \<and>
   fst (the (device_messages_page 2 998 demo_lib not_json_env demo_client
               (PyStr ''https://api.sigfox.com/v2/devices/1A/messages'') (fresh 0))) =
      Inl (JSONDecodeError ''<html>Bad Gateway</html>'')"
  using not_json_raises_decode_error [where E = not_json_env and w = "fresh 0" and c = demo_client
      and device_id = "''1A''" and ps = PyNone and n = 2 and d = 998 and R = demo_lib
      and s = "''https://api.sigfox.com/v2/devices/1A/messages''"
      and device_type = demo_devicetype and t = "PyStr ''5d01''"]
  by (auto simp add: not_json_env_def not_json_def throttled_once_loads_def demo_devicetype_def Let_def
      demo_lib_def)

text \<open>C4 as stated fails: the first response has status 429 and a body that is not JSON.
  \<^verbatim>\<open>device_messages\<close> does not fail on it: it asks again and returns the records of the next
  response.\<close>

theorem not_json_with_429_counterexample:
  "loads throttled_once_env (body_text (backend throttled_once_env (log (fresh 0))
      (first_request demo_client ''1A'' PyNone))) = None \<and>
   device_messages 1 998 demo_lib throttled_once_env demo_client ''1A'' PyNone (fresh 0) = None \<and>
   fst (the (device_messages 2 998 demo_lib throttled_once_env demo_client ''1A'' PyNone (fresh 0))) =
     Inr (PyList five_records)"
  by (simp add: numeral_2_eq_2 device_messages_def limits_def device_messages_body_def http_def Let_def
      throttled_once_env_def throttled_once_def throttled_once_loads_def demo_client_def fresh_def time_sleep_def
      messages_try_def paging_next_def except_KeyError_def first_request_def demo_lib_def)

subsection \<open>The uniform request functions\<close>

text \<open>C10. \<^verbatim>\<open>device_rename\<close> returns \<^verbatim>\<open>None\<close> whatever the backend answers (any status, any
  body): it issues its one PUT request and reads nothing of the response.\<close>

theorem device_rename_returns_None:
  "fst (device_rename E c device_id new_name w) = Inr PyNone \<and>
   map req (log (snd (device_rename E c device_id new_name w))) =
     map req (log w) @ [\<lparr>verb = PUT, url = api_url c @ ''devices/'' @ device_id,
                          auth = (login c, password c), params = PyNone,
                          payload = JsonPayload (PyDict [(''name'', new_name)])\<rparr>]"
  by (simp add: device_rename_def Let_def split_beta http_log print_log)

text \<open>C6. When the device has an \<^verbatim>\<open>id\<close> and a \<^verbatim>\<open>pac\<close>, the device type an \<^verbatim>\<open>id\<close> that is a
  string, and the debug line (if debugging is on) does not raise, \<^verbatim>\<open>device_create\<close> issues
  one POST request whose JSON body has the prefix \<^verbatim>\<open>api_added-\<close>, the supplied id/pac pair
  as its only \<^verbatim>\<open>ids\<close> entry and the supplied certificate; of the device type only the id
  is used, in the URL, and nothing of it is in the body.\<close>

theorem device_create_body:
  assumes "py_getitem device ''id'' = Inr i" "py_getitem device ''pac'' = Inr p"
     "py_getitem devicetype ''id'' = Inr (PyStr t)"
     "fst (device_create_debug c device devicetype w) = Inr ()"
  shows "map req (log (snd (device_create E c device cert devicetype w))) =
     map req (log w) @
       [\<lparr>verb = POST, url = api_url c @ ''devicetypes/'' @ t @ ''/devices/bulk/create/async'',
         auth = (login c, password c), params = PyNone,
         payload = JsonPayload (PyDict [(''prefix'', PyStr ''api_added-''),
                                        (''ids'', PyList [PyDict [(''id'', i), (''pac'', p)]]),
                                        (''productCertificate'', PyStr cert)])\<rparr>]"
  using assms
  by (auto simp add: device_create_def device_create_debug_def Let_def split_beta http_log print_log
      split: sum.splits if_splits option.splits prod.splits)

theorem device_create_body_witness:
  "py_getitem demo_device ''id'' = Inr (PyStr ''1A'') \<and>
   py_getitem demo_device ''pac'' = Inr (PyStr ''0F0F'') \<and>
   py_getitem demo_devicetype ''id'' = Inr (PyStr ''5d01'') \<and>
   fst (device_create_debug debug_client demo_device demo_devicetype (fresh 0)) = Inr () \<and>
   map req (log (snd (device_create wrapped_env debug_client demo_device ''P_0001'' demo_devicetype
                        (fresh 0)))) =
     [\<lparr>verb = POST, url = ''https://api.sigfox.com/v2/devicetypes/5d01/devices/bulk/create/async'',
       auth = (''user'', ''secret''), params = PyNone,
       payload = JsonPayload (PyDict [(''prefix'', PyStr ''api_added-''),
                                      (''ids'', PyList [PyDict [(''id'', PyStr ''1A''),
                                                                (''pac'', PyStr ''0F0F'')]]),
                                      (''productCertificate'', PyStr ''P_0001'')])\<rparr>]"
  using device_create_body [of demo_device "PyStr ''1A''" "PyStr ''0F0F''" demo_devicetype "''5d01''"
      debug_client "fresh 0" wrapped_env "''P_0001''"]
  by (simp add: demo_device_def demo_devicetype_def device_create_debug_def debug_client_def fresh_def)

text \<open>C7, as amended. \<^verbatim>\<open>device_info\<close> returns the whole parsed JSON body of the response,
  as it is: no \<^verbatim>\<open>data\<close> field is taken out of it. (So the result is a record with the
  requested id when the body the backend sends is that record.)\<close>

theorem device_info_returns_body:
  assumes "loads E (body_text (backend E (log w)
             (get_request c (api_url c @ ''devices/'' @ device_id)))) = Some j"
  shows "fst (device_info E c device_id w) = Inr j"
  using assms
  by (simp add: device_info_def get_request_def Let_def split_beta http_fst print_log)

theorem device_info_returns_body_witness:
  "loads wrapped_env (body_text (backend wrapped_env (log (fresh 0))
      (get_request demo_client (api_url demo_client @ ''devices/'' @ ''1A'')))) =
     Some (PyDict [(''data'', PyDict [(''id'', PyStr ''1A''), (''name'', PyStr ''probe'')])]) \<and>
   fst (device_info wrapped_env demo_client ''1A'' (fresh 0)) =
     Inr (PyDict [(''data'', PyDict [(''id'', PyStr ''1A''), (''name'', PyStr ''probe'')])])"
  using device_info_returns_body [of wrapped_env "fresh 0" demo_client "''1A''"
      "PyDict [(''data'', PyDict [(''id'', PyStr ''1A''), (''name'', PyStr ''probe'')])]"]
  by (simp add: wrapped_env_def wrapped_def wrapped_loads_def)

text \<open>C7 as stated fails: the backend answers with an envelope whose \<^verbatim>\<open>data\<close> field is the
  record of device 1A; \<^verbatim>\<open>device_info\<close> does not return that field but the envelope.\<close>

theorem device_info_data_counterexample:
  "py_getitem (PyDict [(''data'', PyDict [(''id'', PyStr ''1A''), (''name'', PyStr ''probe'')])]) ''data'' =
     Inr (PyDict [(''id'', PyStr ''1A''), (''name'', PyStr ''probe'')]) \<and>
   fst (device_info wrapped_env demo_client ''1A'' (fresh 0)) \<noteq>
     Inr (PyDict [(''id'', PyStr ''1A''), (''name'', PyStr ''probe'')]) \<and>
   fst (device_info wrapped_env demo_client ''1A'' (fresh 0)) =
     Inr (PyDict [(''data'', PyDict [(''id'', PyStr ''1A''), (''name'', PyStr ''probe'')])])"
  by (simp add: device_info_def Let_def split_beta http_def wrapped_env_def wrapped_def
      wrapped_loads_def demo_client_def fresh_def)

text \<open>C8, the code as it is. \<^verbatim>\<open>device_types_create\<close> posts the dictionary written in its
  body, as form data, whatever descriptor it is given, and returns the response object, not
  its parsed JSON.\<close>

theorem device_types_create_ignores_new:
  "fst (device_types_create E c new w) =
     Inr (backend E (log w)
            \<lparr>verb = POST, url = api_url c @ ''devicetypes/create'', auth = (login c, password c),
             params = PyNone,
             payload = FormPayload (PyDict [(''name'', PyStr ''test1''),
                                            (''contractId'', PyStr ''moire_la_30f0_30f1'')])\<rparr>) \<and>
   map req (log (snd (device_types_create E c new w))) =
     map req (log w) @
       [\<lparr>verb = POST, url = api_url c @ ''devicetypes/create'', auth = (login c, password c),
         params = PyNone,
         payload = FormPayload (PyDict [(''name'', PyStr ''test1''),
                                        (''contractId'', PyStr ''moire_la_30f0_30f1'')])\<rparr>]"
  by (simp add: device_types_create_def Let_def split_beta http_fst http_log print_log)

text \<open>C5. Constructing the client with an empty login or an empty password fails with the
  constructor's exception, and the process state is untouched: no request has been issued.\<close>

theorem init_missing_credentials:
  "lg = [] \<or> pw = [] \<Longrightarrow>
   Sigfox_init lg pw dbg w =
     (Inl (Exception ''Please define login and password when initiating pySigfox class!''), w)"
  by (simp add: Sigfox_init_def)

theorem init_missing_credentials_witness:
  "Sigfox_init [] ''secret'' False (fresh 0) =
     (Inl (Exception ''Please define login and password when initiating pySigfox class!''), fresh 0)"
  using init_missing_credentials [of "[]" "''secret''" False "fresh 0"] by simp

end
